theory Spec2Isabelle
  imports Main
begin

section \<open>Compositional ReFT notebook: preprocessing and the subspace-gated intervention\<close>

text \<open>
  The notebook \<^verbatim>\<open>examples/composition/compreft.ipynb\<close> tags the rows of two datasets
  with the coordinates of a rank-8 rotation they train, and overrides the forward pass of a
  low-rank intervention so that each example of a batch only uses its own coordinates.
  Python exceptions are values of \<open>error\<close>; a function that may raise returns
  \<open>error + 'a\<close> with \<open>Inl\<close> for the exception.
\<close>

datatype error = AssertionError | IndexError | ValueError | TypeError | KeyError | RuntimeError

subsection \<open>Python built-ins used by the preprocessing\<close>

text \<open>
  \<^verbatim>\<open>xs[i]\<close> on a list: a negative index counts from the end, and an index outside
  \<open>-len \<le> i < len\<close> raises IndexError.
\<close>

definition py_getitem :: "'a list \<Rightarrow> int \<Rightarrow> error + 'a" where
  "py_getitem xs i =
     (if 0 \<le> i \<and> i < int (length xs) then Inr (xs ! nat i)
      else if - int (length xs) \<le> i \<and> i < 0 then Inr (xs ! nat (int (length xs) + i))
      else Inl IndexError)"

text \<open>
  A string is the list of the code points of a Python \<^verbatim>\<open>str\<close> whose code points lie
  below 256.

  \<^verbatim>\<open>int(s)\<close> on a string: surrounding white space is skipped, one sign is allowed, and
  the rest is a non-empty run of decimal digits in which single underscores may separate
  digits; a string with more than 4300 digits is refused. Anything else raises ValueError.
  The white space that is skipped is the ASCII white space of C (the characters 9 to 13 and
  the blank) and, of the code points from 128 on, the two Unicode spaces 133 and 160; the
  separators 28 to 31 are not skipped. Below 256 only the ASCII digits are decimal digits.
\<close>

definition is_space :: "char \<Rightarrow> bool" where
  "is_space c = ((9 \<le> (of_char c :: nat) \<and> (of_char c :: nat) \<le> 13)
     \<or> (of_char c :: nat) = 32 \<or> (of_char c :: nat) = 133 \<or> (of_char c :: nat) = 160)"

definition is_digit :: "char \<Rightarrow> bool" where
  "is_digit c = (48 \<le> (of_char c :: nat) \<and> (of_char c :: nat) \<le> 57)"

definition digit_val :: "char \<Rightarrow> nat" where
  "digit_val c = of_char c - 48"

definition strip :: "string \<Rightarrow> string" where
  "strip s = rev (dropWhile is_space (rev (dropWhile is_space s)))"

fun parse_digits :: "nat \<Rightarrow> string \<Rightarrow> nat option" where
  "parse_digits acc [] = Some acc"
| "parse_digits acc (c # cs) =
     (if is_digit c then parse_digits (10 * acc + digit_val c) cs
      else if c = CHR ''_'' then
        (case cs of
           [] \<Rightarrow> None
         | d # ds \<Rightarrow> if is_digit d then parse_digits (10 * acc + digit_val d) ds else None)
      else None)"

text \<open>The default of \<^verbatim>\<open>sys.get_int_max_str_digits()\<close>.\<close>

definition int_max_str_digits :: nat where
  "int_max_str_digits = 4300"

definition parse_unsigned :: "string \<Rightarrow> nat option" where
  "parse_unsigned s =
     (case s of
        [] \<Rightarrow> None
      | c # cs \<Rightarrow>
          if int_max_str_digits < length (filter is_digit s) then None
          else if is_digit c then parse_digits (digit_val c) cs else None)"

definition py_int :: "string \<Rightarrow> error + int" where
  "py_int s =
     (case strip s of
        [] \<Rightarrow> Inl ValueError
      | c # cs \<Rightarrow>
          (if c = CHR ''-'' then
             (case parse_unsigned cs of None \<Rightarrow> Inl ValueError | Some n \<Rightarrow> Inr (- int n))
           else if c = CHR ''+'' then
             (case parse_unsigned cs of None \<Rightarrow> Inl ValueError | Some n \<Rightarrow> Inr (int n))
           else
             (case parse_unsigned (c # cs) of None \<Rightarrow> Inl ValueError | Some n \<Rightarrow> Inr (int n))))"

subsection \<open>Subspace partitions and dataset rows\<close>

text \<open>
  A LoReFT of rank 8: the first four coordinates go to German sentence completion, the
  next four to instruction following.
\<close>

definition reft_rank :: nat where
  "reft_rank = 8"

definition HELLASWAG_SUBSPACE :: "int list" where
  "HELLASWAG_SUBSPACE = [0, 1, 2, 3]"

definition INSTRUCT_SUBSPACE :: "int list" where
  "INSTRUCT_SUBSPACE = [4, 5, 6, 7]"

text \<open>
  A dataset row is a dictionary with the columns of its dataset's schema. The columns the
  code reads or writes are record fields; the other columns of a row play no part and are
  left out. The preprocessing functions return the row they were given with columns added
  or overwritten.
\<close>

record hellaswag_example =
  label :: string
  endings_de :: "string list"
  ctx :: string

record hellaswag_reft_example = hellaswag_example +
  instruction :: string
  "output" :: string
  subspaces :: "int list"

record ultrafeedback_example =
  instruction :: string
  input :: string
  "output" :: string

record ultrafeedback_reft_example = ultrafeedback_example +
  subspaces :: "int list"

text \<open>The columns left after \<^verbatim>\<open>remove_columns\<close>, shared by both datasets.\<close>

record reft_example =
  instruction :: string
  "output" :: string
  subspaces :: "int list"

definition preprocess_hellaswag_de_for_reft ::
    "hellaswag_example \<Rightarrow> error + hellaswag_reft_example" where
  "preprocess_hellaswag_de_for_reft examples =
     (case py_int (label examples) of
        Inl e \<Rightarrow> Inl e
      | Inr lbl \<Rightarrow>
          (case (if length (endings_de examples) < 4
                 then py_getitem (endings_de examples) (- 1)
                 else py_getitem (endings_de examples) lbl) of
             Inl e \<Rightarrow> Inl e
           | Inr out \<Rightarrow>
               Inr \<lparr>label = label examples, endings_de = endings_de examples,
                    ctx = ctx examples,
                    hellaswag_reft_example.instruction = ctx examples,
                    hellaswag_reft_example.output = out,
                    hellaswag_reft_example.subspaces = HELLASWAG_SUBSPACE\<rparr>))"

text \<open>
  \<^verbatim>\<open>tokenizer.eos_token\<close> is a string or \<^verbatim>\<open>None\<close>; \<^verbatim>\<open>str += None\<close> raises
  TypeError.
\<close>

definition preprocess_ultrafeedback_for_reft ::
    "string option \<Rightarrow> ultrafeedback_example \<Rightarrow> error + ultrafeedback_reft_example" where
  "preprocess_ultrafeedback_for_reft eos_token examples =
     (case eos_token of
        None \<Rightarrow> Inl TypeError
      | Some eos \<Rightarrow>
          Inr \<lparr>ultrafeedback_example.instruction = ultrafeedback_example.instruction examples,
               input = input examples,
               ultrafeedback_example.output = ultrafeedback_example.output examples @ eos,
               ultrafeedback_reft_example.subspaces = INSTRUCT_SUBSPACE\<rparr>)"

text \<open>
  \<^verbatim>\<open>Dataset.map\<close> applies the function to the rows in order and stops at the first
  exception; on a \<^verbatim>\<open>DatasetDict\<close> it does so for every split.
\<close>

fun dataset_map :: "('a \<Rightarrow> error + 'b) \<Rightarrow> 'a list \<Rightarrow> error + 'b list" where
  "dataset_map f [] = Inr []"
| "dataset_map f (x # xs) =
     (case f x of
        Inl e \<Rightarrow> Inl e
      | Inr y \<Rightarrow> (case dataset_map f xs of Inl e \<Rightarrow> Inl e | Inr ys \<Rightarrow> Inr (y # ys)))"

fun datasetdict_map ::
    "('a \<Rightarrow> error + 'b) \<Rightarrow> (string \<times> 'a list) list \<Rightarrow> error + (string \<times> 'b list) list" where
  "datasetdict_map f [] = Inr []"
| "datasetdict_map f ((split, rows) # rest) =
     (case dataset_map f rows of
        Inl e \<Rightarrow> Inl e
      | Inr rows' \<Rightarrow>
          (case datasetdict_map f rest of
             Inl e \<Rightarrow> Inl e
           | Inr rest' \<Rightarrow> Inr ((split, rows') # rest')))"

definition hellaswag_columns :: "hellaswag_reft_example \<Rightarrow> reft_example" where
  "hellaswag_columns r =
     \<lparr>reft_example.instruction = hellaswag_reft_example.instruction r,
      reft_example.output = hellaswag_reft_example.output r,
      reft_example.subspaces = hellaswag_reft_example.subspaces r\<rparr>"

definition ultrafeedback_columns :: "ultrafeedback_reft_example \<Rightarrow> reft_example" where
  "ultrafeedback_columns r =
     \<lparr>reft_example.instruction = ultrafeedback_example.instruction r,
      reft_example.output = ultrafeedback_example.output r,
      reft_example.subspaces = ultrafeedback_reft_example.subspaces r\<rparr>"

text \<open>
  The cell's dataset pipeline: map every split of the German HellaSwag dataset, keep the
  new columns of its \<^verbatim>\<open>train\<close> split, map the instruction-following rows, drop their
  \<^verbatim>\<open>input\<close> column, and concatenate.
\<close>

definition subspace_dataset ::
    "string option \<Rightarrow> (string \<times> hellaswag_example list) list \<Rightarrow> ultrafeedback_example list
       \<Rightarrow> error + reft_example list" where
  "subspace_dataset eos_token hellaswag_de ultrafeedback_1k =
     (case map_of hellaswag_de ''train'' of
        None \<Rightarrow> Inl KeyError
      | Some _ \<Rightarrow>
     (case datasetdict_map preprocess_hellaswag_de_for_reft hellaswag_de of
        Inl e \<Rightarrow> Inl e
      | Inr raw_dataset \<Rightarrow>
          (case map_of raw_dataset ''train'' of
             None \<Rightarrow> Inl KeyError
           | Some train \<Rightarrow>
               (case dataset_map (preprocess_ultrafeedback_for_reft eos_token) ultrafeedback_1k of
                  Inl e \<Rightarrow> Inl e
                | Inr raw_uf \<Rightarrow>
                    Inr (map hellaswag_columns train @ map ultrafeedback_columns raw_uf)))))"

subsection \<open>Tensors and the intervention module\<close>

text \<open>
  A hidden-state tensor of shape (batch, positions, features) is a list of examples, each a
  list of positions, each a list of numbers. The numbers are taken from a commutative ring:
  arithmetic is exact, so the casts between numeric precisions are the identity.
\<close>

type_synonym 'a matrix = "'a list list"

type_synonym 'a tensor3 = "'a list list list"

text \<open>
  The module's attributes. \<open>weight\<close> is \<^verbatim>\<open>rotate_layer.weight\<close>, with
  \<open>embed_dim\<close> rows and \<open>low_rank_dimension\<close> columns; \<open>source_weight\<close>, with
  \<open>low_rank_dimension\<close> rows and \<open>embed_dim\<close> columns, and \<open>source_bias\<close> are the
  weight and the bias of the linear layer \<^verbatim>\<open>learned_source\<close>; \<open>act_fn\<close> is
  applied to every entry. \<open>training\<close> is the
  module's mode flag and \<open>dropout\<close> is what the dropout layer does in training mode: it
  reads the state of the random generator and returns the regularised tensor with the
  generator's next state.
\<close>

record ('a, 'g) subloreft =
  embed_dim :: nat
  low_rank_dimension :: nat
  weight :: "'a matrix"
  source_weight :: "'a matrix"
  source_bias :: "'a list"
  act_fn :: "'a \<Rightarrow> 'a"
  training :: bool
  dropout :: "'g \<Rightarrow> 'a tensor3 \<Rightarrow> 'a tensor3 \<times> 'g"

text \<open>The shapes the constructor gives the parameters.\<close>

definition wf_module :: "('a, 'g) subloreft \<Rightarrow> bool" where
  "wf_module m =
     (length (weight m) = embed_dim m
      \<and> list_all (\<lambda>row. length row = low_rank_dimension m) (weight m)
      \<and> length (source_weight m) = low_rank_dimension m
      \<and> list_all (\<lambda>row. length row = embed_dim m) (source_weight m)
      \<and> length (source_bias m) = low_rank_dimension m)"

text \<open>The product of a (rows, k) matrix with a (k, n) matrix.\<close>

definition matmul :: "nat \<Rightarrow> nat \<Rightarrow> 'a::comm_ring_1 matrix \<Rightarrow> 'a matrix \<Rightarrow> 'a matrix" where
  "matmul k n A B = map (\<lambda>a. map (\<lambda>d. \<Sum>t\<leftarrow>[0..<k]. a ! t * B ! t ! d) [0..<n]) A"

text \<open>
  Modelled from the spec: the rotation layer, whose class is not in the notebook. The spec
  calls its result the rotated base representation, the base multiplied by the learned
  rotation matrix.
\<close>

definition rotate_layer :: "('a::comm_ring_1, 'g) subloreft \<Rightarrow> 'a tensor3 \<Rightarrow> 'a tensor3" where
  "rotate_layer m x = map (\<lambda>seq. matmul (embed_dim m) (low_rank_dimension m) seq (weight m)) x"

text \<open>
  Modelled from the spec: the learned source transformation, a linear layer set up by the
  parent class, which is not in the notebook: the weight applied to the hidden state, plus
  the bias.
\<close>

definition learned_source :: "('a::comm_ring_1, 'g) subloreft \<Rightarrow> 'a tensor3 \<Rightarrow> 'a tensor3" where
  "learned_source m x =
     map (map (\<lambda>h. map (\<lambda>j. (\<Sum>i\<leftarrow>[0..<embed_dim m]. h ! i * source_weight m ! j ! i)
                               + source_bias m ! j)
                     [0..<low_rank_dimension m])) x"

definition apply_act_fn :: "('a, 'g) subloreft \<Rightarrow> 'a tensor3 \<Rightarrow> 'a tensor3" where
  "apply_act_fn m x = map (map (map (act_fn m))) x"

definition tensor_sub :: "'a::comm_ring_1 tensor3 \<Rightarrow> 'a tensor3 \<Rightarrow> 'a tensor3" where
  "tensor_sub x y = map2 (map2 (map2 (-))) x y"

definition matrix_add :: "'a::comm_ring_1 matrix \<Rightarrow> 'a matrix \<Rightarrow> 'a matrix" where
  "matrix_add x y = map2 (map2 (+)) x y"

text \<open>
  Both matrix products need the feature dimension of the input to be the number of rows of
  the weight; otherwise the product raises RuntimeError.
\<close>

definition features_match :: "('a, 'g) subloreft \<Rightarrow> 'a tensor3 \<Rightarrow> bool" where
  "features_match m x = list_all (list_all (\<lambda>h. length h = embed_dim m)) x"

text \<open>
  An index into a tensor dimension of size \<open>n\<close>: negative indices count from the end,
  anything outside \<open>-n \<le> i < n\<close> raises IndexError.
\<close>

definition norm_index :: "nat \<Rightarrow> int \<Rightarrow> error + nat" where
  "norm_index n i =
     (if 0 \<le> i \<and> i < int n then Inr (nat i)
      else if - int n \<le> i \<and> i < 0 then Inr (nat (int n + i))
      else Inl IndexError)"

definition valid_index :: "nat \<Rightarrow> int \<Rightarrow> bool" where
  "valid_index n i = (- int n \<le> i \<and> i < int n)"

text \<open>The coordinate a valid index denotes.\<close>

definition index_of :: "nat \<Rightarrow> int \<Rightarrow> nat" where
  "index_of n i = (if 0 \<le> i then nat i else nat (int n + i))"

fun norm_indices :: "nat \<Rightarrow> int list \<Rightarrow> error + nat list" where
  "norm_indices n [] = Inr []"
| "norm_indices n (i # is) =
     (case norm_index n i of
        Inl e \<Rightarrow> Inl e
      | Inr j \<Rightarrow> (case norm_indices n is of Inl e \<Rightarrow> Inl e | Inr js \<Rightarrow> Inr (j # js)))"

text \<open>
  The loop over \<^verbatim>\<open>range(len(subspaces))\<close>. For example \<open>example_i\<close> it takes the
  selected coordinates of every position of \<^verbatim>\<open>diff[example_i]\<close> (LHS, one row per
  position) and the selected columns of the weight, transposed (RHS, one row per selected
  coordinate), and appends them to the two lists.
\<close>

fun gather :: "('a, 'g) subloreft \<Rightarrow> 'a tensor3 \<Rightarrow> nat \<Rightarrow> int list list
    \<Rightarrow> error + ('a matrix list \<times> 'a matrix list)" where
  "gather m diff example_i [] = Inr ([], [])"
| "gather m diff example_i (s # rest) =
     (if length diff \<le> example_i then Inl IndexError
      else
        (case norm_indices (low_rank_dimension m) s of
           Inl e \<Rightarrow> Inl e
         | Inr js \<Rightarrow>
             (let LHS = map (\<lambda>row. map (\<lambda>j. row ! j) js) (diff ! example_i);
                  RHS = map (\<lambda>j. map (\<lambda>row. row ! j) (weight m)) js
              in case gather m diff (Suc example_i) rest of
                   Inl e \<Rightarrow> Inl e
                 | Inr (batched_subspace, batched_weights) \<Rightarrow>
                     Inr (LHS # batched_subspace, RHS # batched_weights))))"

text \<open>
  \<^verbatim>\<open>torch.stack\<close> raises RuntimeError on an empty list and on tensors of different
  shapes. The gathered matrices of one call share their number of positions and their
  number of features, so their shapes agree exactly when the examples select the same number
  of coordinates.
\<close>

definition stackable :: "int list list \<Rightarrow> bool" where
  "stackable subs = (subs \<noteq> [] \<and> list_all (\<lambda>s. length s = length (hd subs)) subs)"

definition bmm :: "nat \<Rightarrow> 'a::comm_ring_1 matrix list \<Rightarrow> 'a matrix list \<Rightarrow> 'a tensor3" where
  "bmm n xs ys = map2 (\<lambda>L R. matmul (length R) n L R) xs ys"

text \<open>
  Addition of two tensors that agree on positions and features, with broadcasting over the
  batch dimension: a batch of one is repeated, any other mismatch raises RuntimeError.
\<close>

definition broadcast_add :: "'a::comm_ring_1 tensor3 \<Rightarrow> 'a tensor3 \<Rightarrow> error + 'a tensor3" where
  "broadcast_add x y =
     (if length x = length y then Inr (map2 matrix_add x y)
      else if length y = 1 then Inr (map (\<lambda>a. matrix_add a (y ! 0)) x)
      else if length x = 1 then Inr (map (\<lambda>b. matrix_add (x ! 0) b) y)
      else Inl RuntimeError)"

text \<open>The dropout layer is the identity in evaluation mode.\<close>

definition apply_dropout :: "('a, 'g) subloreft \<Rightarrow> 'g \<Rightarrow> 'a tensor3 \<Rightarrow> 'a tensor3 \<times> 'g" where
  "apply_dropout m g x = (if training m then dropout m g x else (x, g))"

text \<open>
  The value of \<^verbatim>\<open>diff\<close>: the activation of the learned source of the base, minus the
  rotated base.
\<close>

definition residual :: "('a::comm_ring_1, 'g) subloreft \<Rightarrow> 'a tensor3 \<Rightarrow> 'a tensor3" where
  "residual m base =
     tensor_sub (apply_act_fn m (learned_source m base)) (rotate_layer m base)"

text \<open>
  \<^verbatim>\<open>SubloreftIntervention.forward\<close>. It takes the generator state and returns the
  result of the call, an exception or the output tensor, with the generator state after it.
  The argument \<^verbatim>\<open>source\<close> is never read.
\<close>

definition forward :: "('a::comm_ring_1, 'g) subloreft \<Rightarrow> 'g \<Rightarrow> 'a tensor3
    \<Rightarrow> int list list option \<Rightarrow> (error + 'a tensor3) \<times> 'g" where
  "forward m g base subspaces_arg =
     (case subspaces_arg of
        None \<Rightarrow> (Inl AssertionError, g)
      | Some subs \<Rightarrow>
          (if \<not> features_match m base then (Inl RuntimeError, g)
           else
             (let diff = residual m base
              in case gather m diff 0 subs of
                   Inl e \<Rightarrow> (Inl e, g)
                 | Inr (batched_subspace, batched_weights) \<Rightarrow>
                     (if \<not> stackable subs then (Inl RuntimeError, g)
                      else
                        (case broadcast_add base
                                (bmm (embed_dim m) batched_subspace batched_weights) of
                           Inl e \<Rightarrow> (Inl e, g)
                         | Inr out \<Rightarrow>
                             (case apply_dropout m g out of
                                (y, g') \<Rightarrow> (Inr y, g')))))))"

text \<open>
  The value of \<^verbatim>\<open>output\<close> on line 189, the tensor that the last line hands to the
  dropout layer: the steps of \<^verbatim>\<open>forward\<close> up to there.
\<close>

definition gated_output :: "('a::comm_ring_1, 'g) subloreft \<Rightarrow> 'a tensor3
    \<Rightarrow> int list list option \<Rightarrow> error + 'a tensor3" where
  "gated_output m base subspaces_arg =
     (case subspaces_arg of
        None \<Rightarrow> Inl AssertionError
      | Some subs \<Rightarrow>
          (if \<not> features_match m base then Inl RuntimeError
           else
             (let diff = residual m base
              in case gather m diff 0 subs of
                   Inl e \<Rightarrow> Inl e
                 | Inr (batched_subspace, batched_weights) \<Rightarrow>
                     (if \<not> stackable subs then Inl RuntimeError
                      else broadcast_add base
                             (bmm (embed_dim m) batched_subspace batched_weights)))))"

text \<open>
  Modelled from the spec: the forward pass of the parent class, which is not in the
  notebook: the un-gated low-rank correction, the base plus the whole residual multiplied
  by the transposed rotation, followed by the same dropout layer.
\<close>

definition loreft_forward :: "('a::comm_ring_1, 'g) subloreft \<Rightarrow> 'g \<Rightarrow> 'a tensor3
    \<Rightarrow> (error + 'a tensor3) \<times> 'g" where
  "loreft_forward m g base =
     (if \<not> features_match m base then (Inl RuntimeError, g)
      else
        (let diff = residual m base;
             weight_T = map (\<lambda>j. map (\<lambda>row. row ! j) (weight m)) [0..<low_rank_dimension m];
             out = map2 matrix_add base
                     (map (\<lambda>d. matmul (low_rank_dimension m) (embed_dim m) d weight_T) diff)
         in case apply_dropout m g out of (y, g') \<Rightarrow> (Inr y, g')))"

subsection \<open>A small instance\<close>

text \<open>
  A dropout layer of rate 0.0, the one the notebook's module has: it returns its input and
  does not touch the generator.
\<close>

definition no_dropout :: "'g \<Rightarrow> 'a tensor3 \<Rightarrow> 'a tensor3 \<times> 'g" where
  "no_dropout g x = (x, g)"

text \<open>
  A module with three features and rank two over the integers, with the identity as
  activation, in evaluation mode.
\<close>

definition example_module :: "(int, nat) subloreft" where
  "example_module =
     \<lparr>embed_dim = 3, low_rank_dimension = 2,
      weight = [[1, 0], [0, 1], [0, 0]],
      source_weight = [[2, 0, 1], [0, 3, 0]], source_bias = [1, - 1],
      act_fn = (\<lambda>x. x), training = False, dropout = no_dropout\<rparr>"

text \<open>The same module in training mode.\<close>

definition training_module :: "(int, nat) subloreft" where
  "training_module = example_module\<lparr>training := True\<rparr>"

text \<open>A module whose learned source is the rotation itself, so that the residual is zero.\<close>

definition identity_module :: "(int, nat) subloreft" where
  "identity_module =
     example_module\<lparr>source_weight := [[1, 0, 0], [0, 1, 0]], source_bias := [0, 0]\<rparr>"

text \<open>Batches of two and of three examples with two positions each.\<close>

definition example_base :: "int tensor3" where
  "example_base = [[[1, 2, 3], [0, 1, 0]], [[4, 5, 6], [1, 1, 1]]]"

definition other_base :: "int tensor3" where
  "other_base = [[[1, 2, 3], [0, 1, 0]], [[9, 9, 9], [7, 7, 7]], [[0, 0, 1], [2, 0, 2]]]"

text \<open>A batch with the second example of \<open>example_base\<close> and another first example.\<close>

definition shifted_base :: "int tensor3" where
  "shifted_base = [[[7, 7, 7], [7, 7, 7]], [[4, 5, 6], [1, 1, 1]]]"

text \<open>Rows of the two datasets.\<close>

definition hellaswag_row :: hellaswag_example where
  "hellaswag_row =
     \<lparr>label = ''2'', endings_de = [''eins'', ''zwei'', ''drei'', ''vier''], ctx = ''Ein Mann''\<rparr>"

definition short_hellaswag_row :: hellaswag_example where
  "short_hellaswag_row = \<lparr>label = ''2'', endings_de = [''eins'', ''zwei''], ctx = ''Ein Mann''\<rparr>"

definition ultrafeedback_row :: ultrafeedback_example where
  "ultrafeedback_row =
     \<lparr>ultrafeedback_example.instruction = ''Say hi'', input = [],
      ultrafeedback_example.output = ''hi''\<rparr>"

section \<open>Properties of the preprocessing\<close>

lemma dataset_map_Inr:
  "dataset_map f xs = Inr ys \<Longrightarrow> length ys = length xs \<and> (\<forall>i<length xs. f (xs ! i) = Inr (ys ! i))"
proof (induction xs arbitrary: ys)
  case Nil
  then show ?case by simp
next
  case (Cons x xs)
  from Cons.prems obtain y ys' where fx: "f x = Inr y" and rest: "dataset_map f xs = Inr ys'"
    and ys: "ys = y # ys'"
    by (auto split: sum.splits)
  from Cons.IH [OF rest] have len: "length ys' = length xs"
    and el: "\<forall>i<length xs. f (xs ! i) = Inr (ys' ! i)" by simp_all
  show ?case
  proof (intro conjI allI impI)
    show "length ys = length (x # xs)" using len ys by simp
  next
    fix i assume "i < length (x # xs)"
    then show "f ((x # xs) ! i) = Inr (ys ! i)"
      using fx el ys by (cases i) simp_all
  qed
qed

lemma datasetdict_map_lookup:
  "datasetdict_map f d = Inr d' \<Longrightarrow> map_of d' k = Some rows' \<Longrightarrow>
     \<exists>rows. map_of d k = Some rows \<and> dataset_map f rows = Inr rows'"
proof (induction d arbitrary: d')
  case Nil
  then show ?case by simp
next
  case (Cons p d)
  obtain s rows0 where p: "p = (s, rows0)" by (cases p)
  from Cons.prems(1) p obtain r0 rest' where a: "dataset_map f rows0 = Inr r0"
    and b: "datasetdict_map f d = Inr rest'" and d': "d' = (s, r0) # rest'"
    by (auto split: sum.splits)
  show ?case
  proof (cases "s = k")
    case True
    then show ?thesis using Cons.prems(2) a d' p by simp
  next
    case False
    then have "map_of rest' k = Some rows'" using Cons.prems(2) d' by simp
    from Cons.IH [OF b this] show ?thesis using False p by simp
  qed
qed

lemma hellaswag_subspaces:
  "preprocess_hellaswag_de_for_reft ex = Inr r \<Longrightarrow>
     hellaswag_reft_example.subspaces r = HELLASWAG_SUBSPACE"
  by (auto simp: preprocess_hellaswag_de_for_reft_def split: sum.splits)

lemma ultrafeedback_subspaces:
  "preprocess_ultrafeedback_for_reft eos u = Inr r \<Longrightarrow>
     ultrafeedback_reft_example.subspaces r = INSTRUCT_SUBSPACE"
  by (auto simp: preprocess_ultrafeedback_for_reft_def split: option.splits)

lemma subspace_dataset_rows:
  assumes "subspace_dataset eos hs uf = Inr ds"
  shows "\<exists>train. map_of hs ''train'' = Some train \<and> length ds = length train + length uf
     \<and> (\<forall>i<length train. reft_example.subspaces (ds ! i) = HELLASWAG_SUBSPACE)
     \<and> (\<forall>i<length uf. reft_example.subspaces (ds ! (length train + i)) = INSTRUCT_SUBSPACE)"
proof -
  from assms obtain raw train' raw_uf where
    m: "datasetdict_map preprocess_hellaswag_de_for_reft hs = Inr raw"
    and t: "map_of raw ''train'' = Some train'"
    and u: "dataset_map (preprocess_ultrafeedback_for_reft eos) uf = Inr raw_uf"
    and ds: "ds = map hellaswag_columns train' @ map ultrafeedback_columns raw_uf"
    by (auto simp: subspace_dataset_def split: option.splits sum.splits)
  from datasetdict_map_lookup [OF m t] obtain train where
    tr: "map_of hs ''train'' = Some train"
    and dm: "dataset_map preprocess_hellaswag_de_for_reft train = Inr train'" by blast
  note A = dataset_map_Inr [OF dm] and B = dataset_map_Inr [OF u]
  have 1: "length ds = length train + length uf" using A B ds by simp
  have 2: "reft_example.subspaces (ds ! i) = HELLASWAG_SUBSPACE" if "i < length train" for i
  proof -
    have "ds ! i = hellaswag_columns (train' ! i)" using that A ds by (simp add: nth_append)
    moreover have "preprocess_hellaswag_de_for_reft (train ! i) = Inr (train' ! i)"
      using that A by simp
    ultimately show ?thesis using hellaswag_subspaces by (simp add: hellaswag_columns_def)
  qed
  have 3: "reft_example.subspaces (ds ! (length train + i)) = INSTRUCT_SUBSPACE"
    if "i < length uf" for i
  proof -
    have "ds ! (length train + i) = ultrafeedback_columns (raw_uf ! i)"
      using that A B ds by (simp add: nth_append)
    moreover have "preprocess_ultrafeedback_for_reft eos (uf ! i) = Inr (raw_uf ! i)"
      using that B by simp
    ultimately show ?thesis using ultrafeedback_subspaces by (simp add: ultrafeedback_columns_def)
  qed
  show ?thesis using tr 1 2 3 by blast
qed

lemma py_getitem_mem: "py_getitem xs i = Inr y \<Longrightarrow> y \<in> set xs"
  by (auto simp: py_getitem_def split: if_splits)

lemma py_getitem_last: "xs \<noteq> [] \<Longrightarrow> py_getitem xs (- 1) = Inr (last xs)"
proof -
  assume ne: "xs \<noteq> []"
  then have "nat (int (length xs) + - 1) = length xs - 1" by (cases xs) auto
  with ne show ?thesis
    by (cases xs) (auto simp: py_getitem_def last_conv_nth)
qed

text \<open>
  C8. Every row that the preprocessing produces carries a list of column indices of the
  rank-8 rotation: a German sentence-completion row is tagged with exactly \<open>[0, 1, 2, 3]\<close>, an
  instruction-following row with exactly \<open>[4, 5, 6, 7]\<close>; in the concatenated dataset the rows
  of the \<^verbatim>\<open>train\<close> split come first with the first tag, the instruction-following rows
  follow with the second; every index of either tag lies in \<open>0 \<le> j < 8\<close>, and the two tags
  share no index.
\<close>

theorem subspace_tags:
  "(preprocess_hellaswag_de_for_reft ex = Inr r \<longrightarrow>
      hellaswag_reft_example.subspaces r = [0, 1, 2, 3])
   \<and> (preprocess_ultrafeedback_for_reft eos u = Inr r' \<longrightarrow>
      ultrafeedback_reft_example.subspaces r' = [4, 5, 6, 7])
   \<and> (subspace_dataset eos hs uf = Inr ds \<longrightarrow>
      (\<exists>train. map_of hs ''train'' = Some train \<and> length ds = length train + length uf
         \<and> (\<forall>i<length train. reft_example.subspaces (ds ! i) = [0, 1, 2, 3])
         \<and> (\<forall>i<length uf. reft_example.subspaces (ds ! (length train + i)) = [4, 5, 6, 7])))
   \<and> (\<forall>j\<in>set HELLASWAG_SUBSPACE \<union> set INSTRUCT_SUBSPACE. 0 \<le> j \<and> j < int reft_rank)
   \<and> set HELLASWAG_SUBSPACE \<inter> set INSTRUCT_SUBSPACE = {}"
proof (intro conjI impI)
  assume "preprocess_hellaswag_de_for_reft ex = Inr r"
  then show "hellaswag_reft_example.subspaces r = [0, 1, 2, 3]"
    using hellaswag_subspaces by (simp add: HELLASWAG_SUBSPACE_def)
next
  assume "preprocess_ultrafeedback_for_reft eos u = Inr r'"
  then show "ultrafeedback_reft_example.subspaces r' = [4, 5, 6, 7]"
    using ultrafeedback_subspaces by (simp add: INSTRUCT_SUBSPACE_def)
next
  assume "subspace_dataset eos hs uf = Inr ds"
  from subspace_dataset_rows [OF this]
  show "\<exists>train. map_of hs ''train'' = Some train \<and> length ds = length train + length uf
         \<and> (\<forall>i<length train. reft_example.subspaces (ds ! i) = [0, 1, 2, 3])
         \<and> (\<forall>i<length uf. reft_example.subspaces (ds ! (length train + i)) = [4, 5, 6, 7])"
    by (simp add: HELLASWAG_SUBSPACE_def INSTRUCT_SUBSPACE_def)
next
  show "\<forall>j\<in>set HELLASWAG_SUBSPACE \<union> set INSTRUCT_SUBSPACE. 0 \<le> j \<and> j < int reft_rank"
    by (simp add: HELLASWAG_SUBSPACE_def INSTRUCT_SUBSPACE_def reft_rank_def)
next
  show "set HELLASWAG_SUBSPACE \<inter> set INSTRUCT_SUBSPACE = {}"
    by (simp add: HELLASWAG_SUBSPACE_def INSTRUCT_SUBSPACE_def)
qed

text \<open>A dataset of two German rows and one instruction-following row.\<close>

theorem subspace_tags_witness:
  "preprocess_hellaswag_de_for_reft hellaswag_row
     = Inr \<lparr>label = ''2'', endings_de = [''eins'', ''zwei'', ''drei'', ''vier''], ctx = ''Ein Mann'',
            hellaswag_reft_example.instruction = ''Ein Mann'',
            hellaswag_reft_example.output = ''drei'',
            hellaswag_reft_example.subspaces = [0, 1, 2, 3]\<rparr>
   \<and> (\<exists>r'. preprocess_ultrafeedback_for_reft (Some ''</s>'') ultrafeedback_row = Inr r'
         \<and> ultrafeedback_reft_example.subspaces r' = [4, 5, 6, 7])
   \<and> (\<exists>ds. subspace_dataset (Some ''</s>'')
               [(''train'', [hellaswag_row, short_hellaswag_row]), (''validation'', [])]
               [ultrafeedback_row] = Inr ds
         \<and> length ds = 3
         \<and> reft_example.subspaces (ds ! 1) = [0, 1, 2, 3]
         \<and> reft_example.subspaces (ds ! 2) = [4, 5, 6, 7])
   \<and> (5 \<in> set HELLASWAG_SUBSPACE \<union> set INSTRUCT_SUBSPACE \<and> (0::int) \<le> 5 \<and> (5::int) < int reft_rank)"
proof -
  let ?r = "\<lparr>label = ''2'', endings_de = [''eins'', ''zwei'', ''drei'', ''vier''], ctx = ''Ein Mann'',
            hellaswag_reft_example.instruction = ''Ein Mann'',
            hellaswag_reft_example.output = ''drei'',
            hellaswag_reft_example.subspaces = [0, 1, 2, 3]\<rparr>"
  let ?hs = "[(''train'', [hellaswag_row, short_hellaswag_row]), (''validation'', [])]"
  have h1: "preprocess_hellaswag_de_for_reft hellaswag_row = Inr ?r" by code_simp
  obtain r' where h2: "preprocess_ultrafeedback_for_reft (Some ''</s>'') ultrafeedback_row = Inr r'"
    by (simp add: preprocess_ultrafeedback_for_reft_def)
  have hs: "preprocess_hellaswag_de_for_reft short_hellaswag_row
     = Inr \<lparr>label = ''2'', endings_de = [''eins'', ''zwei''], ctx = ''Ein Mann'',
            hellaswag_reft_example.instruction = ''Ein Mann'',
            hellaswag_reft_example.output = ''zwei'',
            hellaswag_reft_example.subspaces = [0, 1, 2, 3]\<rparr>" by code_simp
  obtain ds where h3: "subspace_dataset (Some ''</s>'') ?hs [ultrafeedback_row] = Inr ds"
    by (simp add: subspace_dataset_def h1 hs preprocess_ultrafeedback_for_reft_def)
  have m: "5 \<in> set HELLASWAG_SUBSPACE \<union> set INSTRUCT_SUBSPACE"
    by (simp add: INSTRUCT_SUBSPACE_def)
  note T = subspace_tags [of hellaswag_row ?r "Some ''</s>''" ultrafeedback_row r' ?hs
      "[ultrafeedback_row]" ds]
  from T h2 have u: "ultrafeedback_reft_example.subspaces r' = [4, 5, 6, 7]" by blast
  from T h3 obtain train where tr: "map_of ?hs ''train'' = Some train"
    and len: "length ds = length train + length [ultrafeedback_row]"
    and a: "\<forall>i<length train. reft_example.subspaces (ds ! i) = [0, 1, 2, 3]"
    and b: "\<forall>i<length [ultrafeedback_row].
              reft_example.subspaces (ds ! (length train + i)) = [4, 5, 6, 7]"
    by blast
  from tr have train: "train = [hellaswag_row, short_hellaswag_row]" by simp
  from len train have l: "length ds = 3" by simp
  from a train have d1: "reft_example.subspaces (ds ! 1) = [0, 1, 2, 3]" by simp
  from b train have d2: "reft_example.subspaces (ds ! 2) = [4, 5, 6, 7]"
    by (simp add: numeral_2_eq_2)
  from T m have rng: "(0::int) \<le> 5 \<and> (5::int) < int reft_rank" by blast
  from h1 h2 u h3 l d1 d2 m rng show ?thesis by blast
qed

text \<open>
  C9. The label is parsed before the endings are looked at, so a label that is not an
  integer literal raises ValueError whatever the number of endings. With a label that
  parses: a row with one to three endings gets its last ending as output, whatever the
  value of the label; a row with four or more endings gets the ending at the label's
  position, a negative label counting from the end; a row without endings, and a row with
  four or more endings whose label is outside the list, raise IndexError.
\<close>

theorem hellaswag_output_choice:
  "(py_int (label ex) = Inl e \<longrightarrow> preprocess_hellaswag_de_for_reft ex = Inl e)
   \<and> (py_int (label ex) = Inr lbl \<and> endings_de ex = [] \<longrightarrow>
        preprocess_hellaswag_de_for_reft ex = Inl IndexError)
   \<and> (py_int (label ex) = Inr lbl \<and> endings_de ex \<noteq> [] \<and> length (endings_de ex) < 4 \<longrightarrow>
        preprocess_hellaswag_de_for_reft ex =
          Inr \<lparr>label = label ex, endings_de = endings_de ex, ctx = ctx ex,
               hellaswag_reft_example.instruction = ctx ex,
               hellaswag_reft_example.output = last (endings_de ex),
               hellaswag_reft_example.subspaces = HELLASWAG_SUBSPACE\<rparr>)
   \<and> (py_int (label ex) = Inr lbl \<and> 4 \<le> length (endings_de ex)
        \<and> 0 \<le> lbl \<and> lbl < int (length (endings_de ex)) \<longrightarrow>
        preprocess_hellaswag_de_for_reft ex =
          Inr \<lparr>label = label ex, endings_de = endings_de ex, ctx = ctx ex,
               hellaswag_reft_example.instruction = ctx ex,
               hellaswag_reft_example.output = endings_de ex ! nat lbl,
               hellaswag_reft_example.subspaces = HELLASWAG_SUBSPACE\<rparr>)
   \<and> (py_int (label ex) = Inr lbl \<and> 4 \<le> length (endings_de ex)
        \<and> - int (length (endings_de ex)) \<le> lbl \<and> lbl < 0 \<longrightarrow>
        preprocess_hellaswag_de_for_reft ex =
          Inr \<lparr>label = label ex, endings_de = endings_de ex, ctx = ctx ex,
               hellaswag_reft_example.instruction = ctx ex,
               hellaswag_reft_example.output = endings_de ex ! nat (int (length (endings_de ex)) + lbl),
               hellaswag_reft_example.subspaces = HELLASWAG_SUBSPACE\<rparr>)
   \<and> (py_int (label ex) = Inr lbl \<and> 4 \<le> length (endings_de ex)
        \<and> (lbl < - int (length (endings_de ex)) \<or> int (length (endings_de ex)) \<le> lbl) \<longrightarrow>
        preprocess_hellaswag_de_for_reft ex = Inl IndexError)"
proof (intro conjI impI)
  assume "py_int (label ex) = Inl e"
  then show "preprocess_hellaswag_de_for_reft ex = Inl e"
    by (simp add: preprocess_hellaswag_de_for_reft_def)
next
  assume "py_int (label ex) = Inr lbl \<and> endings_de ex = []"
  then show "preprocess_hellaswag_de_for_reft ex = Inl IndexError"
    by (simp add: preprocess_hellaswag_de_for_reft_def py_getitem_def)
next
  assume "py_int (label ex) = Inr lbl \<and> endings_de ex \<noteq> [] \<and> length (endings_de ex) < 4"
  then show "preprocess_hellaswag_de_for_reft ex =
          Inr \<lparr>label = label ex, endings_de = endings_de ex, ctx = ctx ex,
               hellaswag_reft_example.instruction = ctx ex,
               hellaswag_reft_example.output = last (endings_de ex),
               hellaswag_reft_example.subspaces = HELLASWAG_SUBSPACE\<rparr>"
    by (simp add: preprocess_hellaswag_de_for_reft_def py_getitem_last)
next
  assume "py_int (label ex) = Inr lbl \<and> 4 \<le> length (endings_de ex)
        \<and> 0 \<le> lbl \<and> lbl < int (length (endings_de ex))"
  then show "preprocess_hellaswag_de_for_reft ex =
          Inr \<lparr>label = label ex, endings_de = endings_de ex, ctx = ctx ex,
               hellaswag_reft_example.instruction = ctx ex,
               hellaswag_reft_example.output = endings_de ex ! nat lbl,
               hellaswag_reft_example.subspaces = HELLASWAG_SUBSPACE\<rparr>"
    by (simp add: preprocess_hellaswag_de_for_reft_def py_getitem_def)
next
  assume "py_int (label ex) = Inr lbl \<and> 4 \<le> length (endings_de ex)
        \<and> - int (length (endings_de ex)) \<le> lbl \<and> lbl < 0"
  then show "preprocess_hellaswag_de_for_reft ex =
          Inr \<lparr>label = label ex, endings_de = endings_de ex, ctx = ctx ex,
               hellaswag_reft_example.instruction = ctx ex,
               hellaswag_reft_example.output = endings_de ex ! nat (int (length (endings_de ex)) + lbl),
               hellaswag_reft_example.subspaces = HELLASWAG_SUBSPACE\<rparr>"
    by (simp add: preprocess_hellaswag_de_for_reft_def py_getitem_def)
next
  assume "py_int (label ex) = Inr lbl \<and> 4 \<le> length (endings_de ex)
        \<and> (lbl < - int (length (endings_de ex)) \<or> int (length (endings_de ex)) \<le> lbl)"
  then show "preprocess_hellaswag_de_for_reft ex = Inl IndexError"
    by (auto simp: preprocess_hellaswag_de_for_reft_def py_getitem_def)
qed

text \<open>
  A row with three endings and an empty label raises ValueError, a row without endings
  raises IndexError, and so does a row with four endings and the label 4: none of them gets
  an output.
\<close>

theorem label_not_ignored_counterexample:
  "length (endings_de \<lparr>label = [], endings_de = [''eins'', ''zwei'', ''drei''], ctx = ''Ein Mann''\<rparr>) < 4
   \<and> preprocess_hellaswag_de_for_reft
        \<lparr>label = [], endings_de = [''eins'', ''zwei'', ''drei''], ctx = ''Ein Mann''\<rparr>
       = Inl ValueError
   \<and> preprocess_hellaswag_de_for_reft \<lparr>label = ''0'', endings_de = [], ctx = ''Ein Mann''\<rparr>
       = Inl IndexError
   \<and> preprocess_hellaswag_de_for_reft
        \<lparr>label = ''4'', endings_de = [''eins'', ''zwei'', ''drei'', ''vier''], ctx = ''Ein Mann''\<rparr>
       = Inl IndexError"
  by code_simp

text \<open>One row for each of the six cases.\<close>

theorem hellaswag_output_choice_witness:
  "preprocess_hellaswag_de_for_reft \<lparr>label = ''x'', endings_de = [''eins''], ctx = ''Ein Mann''\<rparr>
     = Inl ValueError
   \<and> preprocess_hellaswag_de_for_reft \<lparr>label = ''2'', endings_de = [], ctx = ''Ein Mann''\<rparr>
     = Inl IndexError
   \<and> preprocess_hellaswag_de_for_reft short_hellaswag_row
     = Inr \<lparr>label = ''2'', endings_de = [''eins'', ''zwei''], ctx = ''Ein Mann'',
            hellaswag_reft_example.instruction = ''Ein Mann'',
            hellaswag_reft_example.output = ''zwei'',
            hellaswag_reft_example.subspaces = [0, 1, 2, 3]\<rparr>
   \<and> preprocess_hellaswag_de_for_reft hellaswag_row
     = Inr \<lparr>label = ''2'', endings_de = [''eins'', ''zwei'', ''drei'', ''vier''], ctx = ''Ein Mann'',
            hellaswag_reft_example.instruction = ''Ein Mann'',
            hellaswag_reft_example.output = ''drei'',
            hellaswag_reft_example.subspaces = [0, 1, 2, 3]\<rparr>
   \<and> preprocess_hellaswag_de_for_reft
        \<lparr>label = ''-1'', endings_de = [''eins'', ''zwei'', ''drei'', ''vier''], ctx = ''Ein Mann''\<rparr>
     = Inr \<lparr>label = ''-1'', endings_de = [''eins'', ''zwei'', ''drei'', ''vier''], ctx = ''Ein Mann'',
            hellaswag_reft_example.instruction = ''Ein Mann'',
            hellaswag_reft_example.output = ''vier'',
            hellaswag_reft_example.subspaces = [0, 1, 2, 3]\<rparr>
   \<and> preprocess_hellaswag_de_for_reft
        \<lparr>label = ''7'', endings_de = [''eins'', ''zwei'', ''drei'', ''vier''], ctx = ''Ein Mann''\<rparr>
     = Inl IndexError"
proof -
  let ?e4 = "[''eins'', ''zwei'', ''drei'', ''vier'']"
  have p1: "py_int (label \<lparr>label = ''x'', endings_de = [''eins''], ctx = ''Ein Mann''\<rparr>)
      = Inl ValueError" by code_simp
  have p2: "py_int (label \<lparr>label = ''2'', endings_de = [], ctx = ''Ein Mann''\<rparr>) = Inr 2"
    by code_simp
  have p3: "py_int (label short_hellaswag_row) = Inr 2" by code_simp
  have p4: "py_int (label hellaswag_row) = Inr 2" by code_simp
  have p5: "py_int (label \<lparr>label = ''-1'', endings_de = ?e4, ctx = ''Ein Mann''\<rparr>) = Inr (- 1)"
    by code_simp
  have p6: "py_int (label \<lparr>label = ''7'', endings_de = ?e4, ctx = ''Ein Mann''\<rparr>) = Inr 7"
    by code_simp
  have c1: "preprocess_hellaswag_de_for_reft
      \<lparr>label = ''x'', endings_de = [''eins''], ctx = ''Ein Mann''\<rparr> = Inl ValueError"
    using hellaswag_output_choice
      [of "\<lparr>label = ''x'', endings_de = [''eins''], ctx = ''Ein Mann''\<rparr>" ValueError 0] p1
    by blast
  have c2: "preprocess_hellaswag_de_for_reft
      \<lparr>label = ''2'', endings_de = [], ctx = ''Ein Mann''\<rparr> = Inl IndexError"
    using hellaswag_output_choice
      [of "\<lparr>label = ''2'', endings_de = [], ctx = ''Ein Mann''\<rparr>" ValueError 2] p2
    by simp
  have c3: "preprocess_hellaswag_de_for_reft short_hellaswag_row
     = Inr \<lparr>label = ''2'', endings_de = [''eins'', ''zwei''], ctx = ''Ein Mann'',
            hellaswag_reft_example.instruction = ''Ein Mann'',
            hellaswag_reft_example.output = ''zwei'',
            hellaswag_reft_example.subspaces = [0, 1, 2, 3]\<rparr>"
    using hellaswag_output_choice [of short_hellaswag_row ValueError 2] p3
    by (simp add: short_hellaswag_row_def HELLASWAG_SUBSPACE_def)
  have c4: "preprocess_hellaswag_de_for_reft hellaswag_row
     = Inr \<lparr>label = ''2'', endings_de = ?e4, ctx = ''Ein Mann'',
            hellaswag_reft_example.instruction = ''Ein Mann'',
            hellaswag_reft_example.output = ''drei'',
            hellaswag_reft_example.subspaces = [0, 1, 2, 3]\<rparr>"
    using hellaswag_output_choice [of hellaswag_row ValueError 2] p4
    by (simp add: hellaswag_row_def HELLASWAG_SUBSPACE_def)
  have c5: "preprocess_hellaswag_de_for_reft
        \<lparr>label = ''-1'', endings_de = ?e4, ctx = ''Ein Mann''\<rparr>
     = Inr \<lparr>label = ''-1'', endings_de = ?e4, ctx = ''Ein Mann'',
            hellaswag_reft_example.instruction = ''Ein Mann'',
            hellaswag_reft_example.output = ''vier'',
            hellaswag_reft_example.subspaces = [0, 1, 2, 3]\<rparr>"
    using hellaswag_output_choice
      [of "\<lparr>label = ''-1'', endings_de = ?e4, ctx = ''Ein Mann''\<rparr>" ValueError "- 1"] p5
    by (simp add: HELLASWAG_SUBSPACE_def)
  have c6: "preprocess_hellaswag_de_for_reft
        \<lparr>label = ''7'', endings_de = ?e4, ctx = ''Ein Mann''\<rparr> = Inl IndexError"
    using hellaswag_output_choice
      [of "\<lparr>label = ''7'', endings_de = ?e4, ctx = ''Ein Mann''\<rparr>" ValueError 7] p6
    by simp
  from c1 c2 c3 c4 c5 c6 show ?thesis by blast
qed

text \<open>
  C10. With an end-of-sequence token \<open>eos\<close>, the instruction-following preprocessing returns
  the row with \<open>eos\<close> appended to its output column; the German preprocessing does not read
  the tokenizer at all, and the output it sets is one of the row's endings as it stands.
\<close>

theorem eos_only_on_instructions:
  "(\<exists>r. preprocess_ultrafeedback_for_reft (Some eos) u = Inr r
        \<and> ultrafeedback_example.output r = ultrafeedback_example.output u @ eos)
   \<and> (preprocess_hellaswag_de_for_reft ex = Inr r' \<longrightarrow>
        hellaswag_reft_example.output r' \<in> set (endings_de ex))"
proof (intro conjI impI)
  show "\<exists>r. preprocess_ultrafeedback_for_reft (Some eos) u = Inr r
        \<and> ultrafeedback_example.output r = ultrafeedback_example.output u @ eos"
    by (simp add: preprocess_ultrafeedback_for_reft_def)
next
  assume "preprocess_hellaswag_de_for_reft ex = Inr r'"
  then show "hellaswag_reft_example.output r' \<in> set (endings_de ex)"
    by (auto simp: preprocess_hellaswag_de_for_reft_def split: sum.splits if_splits
        dest: py_getitem_mem)
qed

text \<open>The two example rows, with the token \<^verbatim>\<open></s>\<close>.\<close>

theorem eos_only_on_instructions_witness:
  "(\<exists>r. preprocess_ultrafeedback_for_reft (Some ''</s>'') ultrafeedback_row = Inr r
        \<and> ultrafeedback_example.output r = ''hi</s>'')
   \<and> preprocess_hellaswag_de_for_reft hellaswag_row
     = Inr \<lparr>label = ''2'', endings_de = [''eins'', ''zwei'', ''drei'', ''vier''], ctx = ''Ein Mann'',
            hellaswag_reft_example.instruction = ''Ein Mann'',
            hellaswag_reft_example.output = ''drei'',
            hellaswag_reft_example.subspaces = [0, 1, 2, 3]\<rparr>
   \<and> ''drei'' \<in> set (endings_de hellaswag_row)"
proof -
  let ?r = "\<lparr>label = ''2'', endings_de = [''eins'', ''zwei'', ''drei'', ''vier''], ctx = ''Ein Mann'',
            hellaswag_reft_example.instruction = ''Ein Mann'',
            hellaswag_reft_example.output = ''drei'',
            hellaswag_reft_example.subspaces = [0, 1, 2, 3]\<rparr>"
  have h: "preprocess_hellaswag_de_for_reft hellaswag_row = Inr ?r" by code_simp
  note T = eos_only_on_instructions [of "''</s>''" ultrafeedback_row hellaswag_row ?r]
  from T have a: "\<exists>r. preprocess_ultrafeedback_for_reft (Some ''</s>'') ultrafeedback_row = Inr r
        \<and> ultrafeedback_example.output r = ''hi</s>''"
    by (simp add: ultrafeedback_row_def)
  from T h have b: "''drei'' \<in> set (endings_de hellaswag_row)" by simp
  from a h b show ?thesis by blast
qed

section \<open>Properties of the forward pass\<close>

lemma norm_index_Inr:
  "norm_index n i = Inr j \<longleftrightarrow> valid_index n i \<and> j = index_of n i"
  by (auto simp: norm_index_def valid_index_def index_of_def)

lemma norm_indices_Inr:
  "norm_indices n s = Inr js \<longleftrightarrow> list_all (valid_index n) s \<and> js = map (index_of n) s"
proof (induction s arbitrary: js)
  case Nil
  then show ?case by auto
next
  case (Cons i s)
  show ?case
  proof (cases "norm_index n i")
    case (Inl e)
    then have "\<not> valid_index n i" using norm_index_Inr [of n i] by auto
    with Inl show ?thesis by simp
  next
    case (Inr j)
    then have j: "valid_index n i" "j = index_of n i" using norm_index_Inr [of n i j] by auto
    show ?thesis
    proof (cases "norm_indices n s")
      case (Inl e)
      then have "\<not> list_all (valid_index n) s" using Cons.IH by auto
      with Inl Inr show ?thesis by simp
    next
      case r: (Inr js')
      then have "list_all (valid_index n) s" "js' = map (index_of n) s" using Cons.IH by auto
      with r Inr j show ?thesis by auto
    qed
  qed
qed

lemma index_of_less: "valid_index n i \<Longrightarrow> index_of n i < n"
  by (auto simp: valid_index_def index_of_def)

lemma gather_Inr:
  "gather m diff i subs = Inr (bs, bw) \<Longrightarrow>
     length bs = length subs \<and> length bw = length subs
     \<and> (subs \<noteq> [] \<longrightarrow> i + length subs \<le> length diff)
     \<and> (\<forall>k<length subs. list_all (valid_index (low_rank_dimension m)) (subs ! k)
          \<and> bs ! k = map (\<lambda>row. map (\<lambda>j. row ! j) (map (index_of (low_rank_dimension m)) (subs ! k)))
                       (diff ! (i + k))
          \<and> bw ! k = map (\<lambda>j. map (\<lambda>row. row ! j) (weight m))
                       (map (index_of (low_rank_dimension m)) (subs ! k)))"
proof (induction subs arbitrary: i bs bw)
  case Nil
  then show ?case by simp
next
  case (Cons s rest)
  from Cons.prems have i: "i < length diff"
    by (auto split: if_splits)
  from Cons.prems i obtain js bs' bw' where
    js: "norm_indices (low_rank_dimension m) s = Inr js"
    and rest: "gather m diff (Suc i) rest = Inr (bs', bw')"
    and bs: "bs = map (\<lambda>row. map (\<lambda>j. row ! j) js) (diff ! i) # bs'"
    and bw: "bw = map (\<lambda>j. map (\<lambda>row. row ! j) (weight m)) js # bw'"
    by (auto simp: Let_def split: sum.splits)
  from js have jsv: "list_all (valid_index (low_rank_dimension m)) s"
    and jse: "js = map (index_of (low_rank_dimension m)) s"
    using norm_indices_Inr by auto
  note IH = Cons.IH [OF rest]
  show ?case
  proof (intro conjI allI impI)
    show "length bs = length (s # rest)" using IH bs by simp
    show "length bw = length (s # rest)" using IH bw by simp
    show "i + length (s # rest) \<le> length diff" using IH i by (cases rest) auto
  next
    fix k assume k: "k < length (s # rest)"
    show "list_all (valid_index (low_rank_dimension m)) ((s # rest) ! k)"
      using k jsv IH by (cases k) auto
    show "bs ! k = map (\<lambda>row. map (\<lambda>j. row ! j)
              (map (index_of (low_rank_dimension m)) ((s # rest) ! k))) (diff ! (i + k))"
      using k bs jse IH by (cases k) auto
    show "bw ! k = map (\<lambda>j. map (\<lambda>row. row ! j) (weight m))
              (map (index_of (low_rank_dimension m)) ((s # rest) ! k))"
      using k bw jse IH by (cases k) auto
  qed
qed

lemma gather_succeeds:
  "i + length subs \<le> length diff \<Longrightarrow>
   list_all (list_all (valid_index (low_rank_dimension m))) subs \<Longrightarrow>
     \<exists>bs bw. gather m diff i subs = Inr (bs, bw)"
proof (induction subs arbitrary: i)
  case Nil
  then show ?case by simp
next
  case (Cons s rest)
  from Cons.prems have "norm_indices (low_rank_dimension m) s
      = Inr (map (index_of (low_rank_dimension m)) s)"
    using norm_indices_Inr by auto
  moreover from Cons.prems have "\<exists>bs bw. gather m diff (Suc i) rest = Inr (bs, bw)"
    by (intro Cons.IH) auto
  moreover from Cons.prems have "i < length diff" by simp
  ultimately show ?case by (auto simp: Let_def)
qed

lemma length_residual: "length (residual m base) = length base"
  by (simp add: residual_def tensor_sub_def apply_act_fn_def learned_source_def rotate_layer_def)

lemma broadcast_add_nth:
  assumes "broadcast_add x y = Inr z" and "length y \<le> length x" and "i < length y"
  shows "length z = length x \<and> z ! i = matrix_add (x ! i) (y ! i)"
proof (cases "length x = length y")
  case True
  with assms show ?thesis by (auto simp: broadcast_add_def)
next
  case False
  show ?thesis
  proof (cases "length y = 1")
    case True
    with assms have "0 < length x" "i = 0" by auto
    with assms False True show ?thesis by (auto simp: broadcast_add_def)
  next
    case ny: False
    with assms False have "length x = 1" by (auto simp: broadcast_add_def split: if_splits)
    with assms False ny show ?thesis by auto
  qed
qed

text \<open>The gated output of a successful call.\<close>

lemma gated_output_Inr:
  assumes "gated_output m base (Some subs) = Inr pre"
  shows "features_match m base \<and> stackable subs
      \<and> length subs \<le> length base \<and> length pre = length base
      \<and> (\<forall>i<length subs. list_all (valid_index (low_rank_dimension m)) (subs ! i)
           \<and> pre ! i = matrix_add (base ! i)
               (matmul (length (subs ! i)) (embed_dim m)
                  (map (\<lambda>row. map (\<lambda>j. row ! j) (map (index_of (low_rank_dimension m)) (subs ! i)))
                     (residual m base ! i))
                  (map (\<lambda>j. map (\<lambda>row. row ! j) (weight m))
                     (map (index_of (low_rank_dimension m)) (subs ! i)))))"
proof -
  from assms have fm: "features_match m base"
    by (auto simp: gated_output_def split: if_splits)
  from assms fm obtain bs bw where ga: "gather m (residual m base) 0 subs = Inr (bs, bw)"
    by (auto simp: gated_output_def Let_def split: sum.splits)
  from assms fm ga have st: "stackable subs"
    by (auto simp: gated_output_def Let_def split: if_splits)
  from assms fm ga st have
    ba: "broadcast_add base (bmm (embed_dim m) bs bw) = Inr pre"
    by (auto simp: gated_output_def Let_def)
  note G = gather_Inr [OF ga]
  from st have ne: "subs \<noteq> []" by (simp add: stackable_def)
  with G have le: "length subs \<le> length base" by (simp add: length_residual)
  have lb: "length (bmm (embed_dim m) bs bw) = length subs" using G by (simp add: bmm_def)
  have nth: "pre ! i = matrix_add (base ! i)
               (matmul (length (subs ! i)) (embed_dim m)
                  (map (\<lambda>row. map (\<lambda>j. row ! j) (map (index_of (low_rank_dimension m)) (subs ! i)))
                     (residual m base ! i))
                  (map (\<lambda>j. map (\<lambda>row. row ! j) (weight m))
                     (map (index_of (low_rank_dimension m)) (subs ! i))))"
    and val: "list_all (valid_index (low_rank_dimension m)) (subs ! i)"
    if i: "i < length subs" for i
  proof -
    from broadcast_add_nth [OF ba] le lb i
    have "pre ! i = matrix_add (base ! i) (bmm (embed_dim m) bs bw ! i)" by simp
    moreover have "bmm (embed_dim m) bs bw ! i = matmul (length (bw ! i)) (embed_dim m) (bs ! i) (bw ! i)"
      using G i by (simp add: bmm_def)
    ultimately show "pre ! i = matrix_add (base ! i)
               (matmul (length (subs ! i)) (embed_dim m)
                  (map (\<lambda>row. map (\<lambda>j. row ! j) (map (index_of (low_rank_dimension m)) (subs ! i)))
                     (residual m base ! i))
                  (map (\<lambda>j. map (\<lambda>row. row ! j) (weight m))
                     (map (index_of (low_rank_dimension m)) (subs ! i))))"
      using G i by simp
    show "list_all (valid_index (low_rank_dimension m)) (subs ! i)" using G i by simp
  qed
  have "length pre = length base"
    using broadcast_add_nth [OF ba, of 0] le lb ne by simp
  with fm st le nth val show ?thesis by blast
qed

text \<open>The call is the dropout layer applied to the gated output.\<close>

lemma forward_gated_output:
  "forward m g base subspaces_arg =
     (case gated_output m base subspaces_arg of
        Inl e \<Rightarrow> (Inl e, g)
      | Inr pre \<Rightarrow> (Inr (fst (apply_dropout m g pre)), snd (apply_dropout m g pre)))"
  by (simp add: forward_def gated_output_def Let_def split: option.splits sum.splits prod.splits)

lemma forward_Inr_gated:
  assumes "forward m g base subspaces_arg = (Inr out, g')"
  shows "\<exists>pre. gated_output m base subspaces_arg = Inr pre \<and> apply_dropout m g pre = (out, g')"
  using assms by (auto simp: forward_gated_output split: sum.splits)

text \<open>The output of a successful call before dropout.\<close>

lemma forward_Inr:
  assumes "forward m g base (Some subs) = (Inr out, g')"
  shows "\<exists>pre. apply_dropout m g pre = (out, g') \<and> features_match m base \<and> stackable subs
      \<and> length subs \<le> length base \<and> length pre = length base
      \<and> (\<forall>i<length subs. list_all (valid_index (low_rank_dimension m)) (subs ! i)
           \<and> pre ! i = matrix_add (base ! i)
               (matmul (length (subs ! i)) (embed_dim m)
                  (map (\<lambda>row. map (\<lambda>j. row ! j) (map (index_of (low_rank_dimension m)) (subs ! i)))
                     (residual m base ! i))
                  (map (\<lambda>j. map (\<lambda>row. row ! j) (weight m))
                     (map (index_of (low_rank_dimension m)) (subs ! i)))))"
proof -
  from forward_Inr_gated [OF assms] obtain pre where
    p: "gated_output m base (Some subs) = Inr pre" and d: "apply_dropout m g pre = (out, g')"
    by blast
  from gated_output_Inr [OF p] d show ?thesis by blast
qed

lemma residual_nth:
  "i < length base \<Longrightarrow>
     residual m base ! i =
       map2 (map2 (-))
         (map (\<lambda>h. map (act_fn m)
                 (map (\<lambda>j. (\<Sum>i\<leftarrow>[0..<embed_dim m]. h ! i * source_weight m ! j ! i)
                             + source_bias m ! j) [0..<low_rank_dimension m])) (base ! i))
         (matmul (embed_dim m) (low_rank_dimension m) (base ! i) (weight m))"
  by (simp add: residual_def tensor_sub_def apply_act_fn_def learned_source_def rotate_layer_def
      comp_def)

lemma length_residual_nth: "i < length base \<Longrightarrow> length (residual m base ! i) = length (base ! i)"
  by (simp add: residual_nth matmul_def)

lemma matmul_nth:
  "p < length A \<Longrightarrow> d < n \<Longrightarrow> matmul k n A B ! p ! d = (\<Sum>t\<leftarrow>[0..<k]. A ! p ! t * B ! t ! d)"
  by (simp add: matmul_def)

lemma length_matmul: "length (matmul k n A B) = length A"
  by (simp add: matmul_def)

lemma length_matmul_nth: "p < length A \<Longrightarrow> length (matmul k n A B ! p) = n"
  by (simp add: matmul_def)

lemma matrix_add_nth:
  "p < length x \<Longrightarrow> p < length y \<Longrightarrow> d < length (x ! p) \<Longrightarrow> d < length (y ! p) \<Longrightarrow>
     matrix_add x y ! p ! d = x ! p ! d + y ! p ! d"
  by (simp add: matrix_add_def)

lemma length_matrix_add: "length (matrix_add x y) = min (length x) (length y)"
  by (simp add: matrix_add_def)

lemma length_matrix_add_nth:
  "p < length x \<Longrightarrow> p < length y \<Longrightarrow> length (matrix_add x y ! p) = min (length (x ! p)) (length (y ! p))"
  by (simp add: matrix_add_def)

text \<open>An entry of the product of the gathered coordinates with the gathered columns.\<close>

lemma gathered_entry:
  assumes "d < length W"
  shows "(\<Sum>t\<leftarrow>[0..<length s]. map (\<lambda>j. drow ! j) (map f s) ! t
            * map (\<lambda>j. map (\<lambda>row. row ! j) W) (map f s) ! t ! d)
         = (\<Sum>idx\<leftarrow>s. drow ! f idx * W ! d ! f idx)"
proof -
  have "map (\<lambda>t. map (\<lambda>j. drow ! j) (map f s) ! t
            * map (\<lambda>j. map (\<lambda>row. row ! j) W) (map f s) ! t ! d) [0..<length s]
        = map (\<lambda>t. drow ! f (s ! t) * W ! d ! f (s ! t)) [0..<length s]"
    using assms by simp
  also have "\<dots> = map (\<lambda>idx. drow ! f idx * W ! d ! f idx) (map (\<lambda>t. s ! t) [0..<length s])"
    by simp
  also have "\<dots> = map (\<lambda>idx. drow ! f idx * W ! d ! f idx) s"
    by (simp only: map_nth)
  finally show ?thesis by simp
qed

lemma gathered_entry_cols:
  "(\<Sum>t\<leftarrow>[0..<length s]. map (\<lambda>j. drow ! j) (map f s) ! t * map c (map f s) ! t ! d)
     = (\<Sum>idx\<leftarrow>s. drow ! f idx * c (f idx) ! d)"
proof -
  have "map (\<lambda>t. map (\<lambda>j. drow ! j) (map f s) ! t * map c (map f s) ! t ! d) [0..<length s]
        = map (\<lambda>t. drow ! f (s ! t) * c (f (s ! t)) ! d) [0..<length s]"
    by simp
  also have "\<dots> = map (\<lambda>idx. drow ! f idx * c (f idx) ! d) (map (\<lambda>t. s ! t) [0..<length s])"
    by simp
  also have "\<dots> = map (\<lambda>idx. drow ! f idx * c (f idx) ! d) s"
    by (simp only: map_nth)
  finally show ?thesis by simp
qed

lemma features_match_nth:
  "features_match m base \<Longrightarrow> i < length base \<Longrightarrow> p < length (base ! i) \<Longrightarrow>
     length (base ! i ! p) = embed_dim m"
  by (simp add: features_match_def list_all_length)

lemma forward_succeeds:
  assumes "features_match m base" and "length subs = length base" and "stackable subs"
    and "list_all (list_all (valid_index (low_rank_dimension m))) subs"
  shows "\<exists>pre. forward m g base (Some subs)
           = (Inr (fst (apply_dropout m g pre)), snd (apply_dropout m g pre))"
proof -
  from assms obtain bs bw where ga: "gather m (residual m base) 0 subs = Inr (bs, bw)"
    using gather_succeeds [of 0 subs "residual m base" m] by (auto simp: length_residual)
  from gather_Inr [OF ga] assms(2) have "length (bmm (embed_dim m) bs bw) = length base"
    by (simp add: bmm_def)
  then obtain pre where "broadcast_add base (bmm (embed_dim m) bs bw) = Inr pre"
    by (simp add: broadcast_add_def)
  with ga assms have "forward m g base (Some subs)
           = (Inr (fst (apply_dropout m g pre)), snd (apply_dropout m g pre))"
    by (simp add: forward_def Let_def split: prod.splits)
  then show ?thesis ..
qed

text \<open>Entries of the output before dropout.\<close>

lemma pre_entry:
  assumes fm: "features_match m base" and wf: "wf_module m" and i: "i < length base"
    and p: "p < length (base ! i)" and d: "d < embed_dim m"
    and pre: "pre_i = matrix_add (base ! i)
               (matmul (length s) (embed_dim m)
                  (map (\<lambda>row. map (\<lambda>j. row ! j) (map (index_of (low_rank_dimension m)) s))
                     (residual m base ! i))
                  (map (\<lambda>j. map (\<lambda>row. row ! j) (weight m))
                     (map (index_of (low_rank_dimension m)) s)))"
  shows "pre_i ! p ! d = base ! i ! p ! d
           + (\<Sum>idx\<leftarrow>s. residual m base ! i ! p ! index_of (low_rank_dimension m) idx
                        * weight m ! d ! index_of (low_rank_dimension m) idx)"
proof -
  let ?L = "map (\<lambda>row. map (\<lambda>j. row ! j) (map (index_of (low_rank_dimension m)) s))
              (residual m base ! i)"
  let ?R = "map (\<lambda>j. map (\<lambda>row. row ! j) (weight m)) (map (index_of (low_rank_dimension m)) s)"
  have lr: "length (residual m base ! i) = length (base ! i)" using i by (rule length_residual_nth)
  have pl: "p < length ?L" using lr p by simp
  have dw: "d < length (weight m)" using wf d by (simp add: wf_module_def)
  have hd: "length (base ! i ! p) = embed_dim m" using fm i p by (rule features_match_nth)
  have "pre_i ! p ! d = base ! i ! p ! d + matmul (length s) (embed_dim m) ?L ?R ! p ! d"
    unfolding pre using p pl d hd
    by (intro matrix_add_nth) (simp_all add: length_matmul length_matmul_nth)
  also have "matmul (length s) (embed_dim m) ?L ?R ! p ! d
      = (\<Sum>t\<leftarrow>[0..<length s]. ?L ! p ! t * ?R ! t ! d)"
    using pl d by (rule matmul_nth)
  also have "?L ! p = map (\<lambda>j. (residual m base ! i ! p) ! j) (map (index_of (low_rank_dimension m)) s)"
    using lr p by simp
  also have "(\<Sum>t\<leftarrow>[0..<length s]. map (\<lambda>j. (residual m base ! i ! p) ! j) (map (index_of (low_rank_dimension m)) s) ! t * ?R ! t ! d)
      = (\<Sum>idx\<leftarrow>s. residual m base ! i ! p ! index_of (low_rank_dimension m) idx
                        * weight m ! d ! index_of (low_rank_dimension m) idx)"
    using dw by (rule gathered_entry)
  finally show ?thesis .
qed

lemma apply_dropout_eval: "\<not> training m \<Longrightarrow> apply_dropout m g x = (x, g)"
  by (simp add: apply_dropout_def)

lemma pre_shape:
  assumes fm: "features_match m base" and i: "i < length base"
    and pre: "pre_i = matrix_add (base ! i) (matmul k (embed_dim m) (map f (residual m base ! i)) R)"
  shows "length pre_i = length (base ! i)"
    and "p < length (base ! i) \<Longrightarrow> length (pre_i ! p) = embed_dim m"
proof -
  have lr: "length (residual m base ! i) = length (base ! i)" using i by (rule length_residual_nth)
  show "length pre_i = length (base ! i)"
    unfolding pre by (simp add: length_matrix_add length_matmul lr)
  assume p: "p < length (base ! i)"
  have "length (base ! i ! p) = embed_dim m" using fm i p by (rule features_match_nth)
  then show "length (pre_i ! p) = embed_dim m"
    unfolding pre using p lr
    by (simp add: length_matrix_add_nth length_matmul length_matmul_nth)
qed

lemma valid_inputs:
  assumes "length subs = length base" and "base \<noteq> []"
    and "\<forall>s\<in>set subs. length s = length (hd subs) \<and> (\<forall>idx\<in>set s. valid_index r idx)"
    and "\<forall>x\<in>set base. \<forall>h\<in>set x. length h = embed_dim m"
  shows "stackable subs" and "list_all (list_all (valid_index r)) subs" and "features_match m base"
  using assms by (auto simp: stackable_def features_match_def list_all_iff)

text \<open>The output of a call in evaluation mode on a well-shaped batch.\<close>

lemma forward_eval:
  assumes tr: "\<not> training m" and len: "length subs = length base" and ne: "base \<noteq> []"
    and sv: "\<forall>s\<in>set subs. length s = length (hd subs)
               \<and> (\<forall>idx\<in>set s. valid_index (low_rank_dimension m) idx)"
    and bf: "\<forall>x\<in>set base. \<forall>h\<in>set x. length h = embed_dim m"
  shows "\<exists>out. forward m g base (Some subs) = (Inr out, g) \<and> length out = length base
      \<and> (\<forall>i<length base. out ! i = matrix_add (base ! i)
               (matmul (length (subs ! i)) (embed_dim m)
                  (map (\<lambda>row. map (\<lambda>j. row ! j) (map (index_of (low_rank_dimension m)) (subs ! i)))
                     (residual m base ! i))
                  (map (\<lambda>j. map (\<lambda>row. row ! j) (weight m))
                     (map (index_of (low_rank_dimension m)) (subs ! i)))))"
proof -
  note V = valid_inputs [OF len ne sv bf]
  from forward_succeeds [OF V(3) len V(1) V(2)] tr obtain out where
    f: "forward m g base (Some subs) = (Inr out, g)"
    by (auto simp: apply_dropout_eval)
  from forward_Inr [OF f] tr len show ?thesis
    using f by (auto simp: apply_dropout_eval)
qed

lemma matmul_zero_rows:
  assumes "p < length A" and "d < n" and "\<forall>t<k. A ! p ! t = 0"
  shows "matmul k n A B ! p ! d = 0"
proof -
  have "map (\<lambda>t. A ! p ! t * B ! t ! d) [0..<k] = map (\<lambda>t. 0) [0..<k]"
    using assms(3) by simp
  then have "(\<Sum>t\<leftarrow>[0..<k]. A ! p ! t * B ! t ! d) = 0"
    by (simp only: sum_list_0)
  with assms(1,2) show ?thesis by (simp add: matmul_nth)
qed

lemma residual_zero:
  assumes "apply_act_fn m (learned_source m base) = rotate_layer m base"
    and "i < length base" and "p < length (base ! i)" and "j < low_rank_dimension m"
  shows "residual m base ! i ! p ! j = 0"
proof -
  have "residual m base = tensor_sub (rotate_layer m base) (rotate_layer m base)"
    using assms(1) by (simp add: residual_def)
  with assms(2,3,4) show ?thesis
    by (simp add: tensor_sub_def rotate_layer_def matmul_def)
qed

lemma full_range_indices:
  assumes "distinct s" and "set s = {0..<int r}"
  shows "list_all (valid_index r) s" and "length s = r"
    and "(\<Sum>idx\<leftarrow>s. (f :: nat \<Rightarrow> 'a::comm_monoid_add) (index_of r idx)) = (\<Sum>j\<leftarrow>[0..<r]. f j)"
proof -
  show "list_all (valid_index r) s"
    using assms(2) by (auto simp: list_all_iff valid_index_def)
  have "length s = card (set s)" using assms(1) by (simp add: distinct_card)
  then show "length s = r" using assms(2) by simp
  have nn: "\<forall>idx\<in>set s. index_of r idx = nat idx"
    using assms(2) by (auto simp: index_of_def)
  have "(\<Sum>idx\<leftarrow>s. f (index_of r idx)) = (\<Sum>idx\<leftarrow>s. f (nat idx))"
    using nn by (intro arg_cong [where f = sum_list] map_cong) auto
  also have "\<dots> = (\<Sum>idx\<in>set s. f (nat idx))"
    using assms(1) by (rule sum_list_distinct_conv_sum_set)
  also have "\<dots> = (\<Sum>idx\<in>{0..<int r}. f (nat idx))" using assms(2) by simp
  also have "\<dots> = (\<Sum>j\<in>nat ` {0..<int r}. f j)"
    by (subst sum.reindex) (auto simp: inj_on_def)
  also have "nat ` {0..<int r} = {0..<r}"
  proof
    show "nat ` {0..<int r} \<subseteq> {0..<r}" by auto
    show "{0..<r} \<subseteq> nat ` {0..<int r}"
    proof
      fix j assume "j \<in> {0..<r}"
      then have "int j \<in> {0..<int r}" "j = nat (int j)" by auto
      then show "j \<in> nat ` {0..<int r}" by blast
    qed
  qed
  also have "(\<Sum>j\<in>{0..<r}. f j) = (\<Sum>j\<leftarrow>[0..<r]. f j)"
    by (simp add: sum_list_distinct_conv_sum_set)
  finally show "(\<Sum>idx\<leftarrow>s. f (index_of r idx)) = (\<Sum>j\<leftarrow>[0..<r]. f j)" .
qed

lemma full_range_matmul:
  assumes "distinct s" and "set s = {0..<int r}"
  shows "matmul (length s) n (map (\<lambda>row. map (\<lambda>j. row ! j) (map (index_of r) s)) D)
           (map c (map (index_of r) s))
         = matmul r n D (map c [0..<r])"
proof -
  have "(\<Sum>t\<leftarrow>[0..<length s]. map (\<lambda>j. drow ! j) (map (index_of r) s) ! t
            * map c (map (index_of r) s) ! t ! d)
        = (\<Sum>t\<leftarrow>[0..<r]. drow ! t * map c [0..<r] ! t ! d)" for drow d
  proof -
    have "(\<Sum>t\<leftarrow>[0..<length s]. map (\<lambda>j. drow ! j) (map (index_of r) s) ! t
            * map c (map (index_of r) s) ! t ! d)
        = (\<Sum>idx\<leftarrow>s. drow ! index_of r idx * c (index_of r idx) ! d)"
      by (rule gathered_entry_cols)
    also have "\<dots> = (\<Sum>j\<leftarrow>[0..<r]. drow ! j * c j ! d)"
      using full_range_indices(3) [OF assms, of "\<lambda>j. drow ! j * c j ! d"] .
    also have "\<dots> = (\<Sum>t\<leftarrow>[0..<r]. drow ! t * map c [0..<r] ! t ! d)"
      by (intro arg_cong [where f = sum_list] map_cong) auto
    finally show ?thesis .
  qed
  then show ?thesis by (simp add: matmul_def)
qed

text \<open>
  C4. Without the \<^verbatim>\<open>subspaces\<close> argument the call raises AssertionError, for every
  module, every input tensor and every state of the generator; no index set is assumed in
  its place, and the generator is left as it was.
\<close>

theorem forward_requires_subspaces:
  "forward m g base None = (Inl AssertionError, g)"
  by (simp add: forward_def)

text \<open>The small module, called without index lists.\<close>

theorem forward_requires_subspaces_witness:
  "forward example_module 0 example_base None = (Inl AssertionError, 0)"
  using forward_requires_subspaces [of example_module 0 example_base] .

text \<open>
  C3. Whenever the call returns, its output is the dropout layer applied to a tensor
  \<open>pre\<close> (in evaluation mode the output itself) of the shape of the input in which, for
  every example that has an index list, every entry is the entry of the base plus the sum,
  over the indices selected for that example and nothing else, of the residual at the
  selected coordinate times the entry of the corresponding column of the rotation. A
  coordinate that is not selected does not occur in the sum.
\<close>

theorem gated_correction:
  assumes "forward m g base (Some subs) = (Inr out, g')" and "wf_module m"
  shows "\<exists>pre. apply_dropout m g pre = (out, g') \<and> (\<not> training m \<longrightarrow> out = pre)
      \<and> length pre = length base
      \<and> (\<forall>i<length subs. length (pre ! i) = length (base ! i)
          \<and> (\<forall>p<length (base ! i). length (pre ! i ! p) = embed_dim m
              \<and> (\<forall>d<embed_dim m.
                    pre ! i ! p ! d = base ! i ! p ! d
                      + (\<Sum>idx\<leftarrow>subs ! i.
                           residual m base ! i ! p ! index_of (low_rank_dimension m) idx
                             * weight m ! d ! index_of (low_rank_dimension m) idx))))"
proof -
  from forward_Inr [OF assms(1)] obtain pre where
    dr: "apply_dropout m g pre = (out, g')" and fm: "features_match m base"
    and le: "length subs \<le> length base" and lp: "length pre = length base"
    and nth: "\<And>i. i < length subs \<Longrightarrow> pre ! i = matrix_add (base ! i)
               (matmul (length (subs ! i)) (embed_dim m)
                  (map (\<lambda>row. map (\<lambda>j. row ! j) (map (index_of (low_rank_dimension m)) (subs ! i)))
                     (residual m base ! i))
                  (map (\<lambda>j. map (\<lambda>row. row ! j) (weight m))
                     (map (index_of (low_rank_dimension m)) (subs ! i))))"
    by blast
  have ev: "\<not> training m \<longrightarrow> out = pre" using dr by (auto simp: apply_dropout_def)
  have body: "length (pre ! i) = length (base ! i)
          \<and> (\<forall>p<length (base ! i). length (pre ! i ! p) = embed_dim m
              \<and> (\<forall>d<embed_dim m.
                    pre ! i ! p ! d = base ! i ! p ! d
                      + (\<Sum>idx\<leftarrow>subs ! i.
                           residual m base ! i ! p ! index_of (low_rank_dimension m) idx
                             * weight m ! d ! index_of (low_rank_dimension m) idx)))"
    if i: "i < length subs" for i
  proof -
    from i le have ib: "i < length base" by simp
    note eq = nth [OF i]
    show ?thesis
      using pre_shape [OF fm ib eq] pre_entry [OF fm assms(2) ib _ _ eq] by blast
  qed
  from dr ev lp body show ?thesis by blast
qed

text \<open>The second example of the small batch selects coordinate 1 only.\<close>

theorem gated_correction_witness:
  "forward example_module 0 example_base (Some [[0], [1]])
     = (Inr [[[6, 2, 3], [1, 1, 0]], [[4, 14, 6], [1, 2, 1]]], 0)
   \<and> wf_module example_module
   \<and> ([[[6, 2, 3], [1, 1, 0]], [[4, 14, 6], [1, 2, 1]]] :: int tensor3) ! 1 ! 0 ! 1
       = example_base ! 1 ! 0 ! 1
         + (\<Sum>idx\<leftarrow>[[0], [1]] ! 1.
              residual example_module example_base ! 1 ! 0 ! index_of (low_rank_dimension example_module) idx
                * weight example_module ! 1 ! index_of (low_rank_dimension example_module) idx)"
proof -
  have h1: "forward example_module 0 example_base (Some [[0], [1]])
     = (Inr [[[6, 2, 3], [1, 1, 0]], [[4, 14, 6], [1, 2, 1]]], 0)" by code_simp
  have h2: "wf_module example_module" by code_simp
  have e: "\<not> training example_module" by code_simp
  from gated_correction [OF h1 h2] obtain pre where
    p: "\<not> training example_module \<longrightarrow> [[[6, 2, 3], [1, 1, 0]], [[4, 14, 6], [1, 2, 1]]] = pre"
    and f: "\<forall>i<length [[0], [1 :: int]]. length (pre ! i) = length (example_base ! i)
          \<and> (\<forall>p<length (example_base ! i). length (pre ! i ! p) = embed_dim example_module
              \<and> (\<forall>d<embed_dim example_module.
                    pre ! i ! p ! d = example_base ! i ! p ! d
                      + (\<Sum>idx\<leftarrow>[[0], [1]] ! i.
                           residual example_module example_base ! i ! p ! index_of (low_rank_dimension example_module) idx
                             * weight example_module ! d ! index_of (low_rank_dimension example_module) idx)))"
    by blast
  from p e have pre: "pre = [[[6, 2, 3], [1, 1, 0]], [[4, 14, 6], [1, 2, 1]]]" by simp
  have i: "(1::nat) < length [[0], [1 :: int]]" by simp
  have pp: "(0::nat) < length (example_base ! 1)" by (simp add: example_base_def)
  have d: "(1::nat) < embed_dim example_module" by (simp add: example_module_def)
  from f i pp d have "pre ! 1 ! 0 ! 1 = example_base ! 1 ! 0 ! 1
                      + (\<Sum>idx\<leftarrow>[[0], [1]] ! 1.
                           residual example_module example_base ! 1 ! 0 ! index_of (low_rank_dimension example_module) idx
                             * weight example_module ! 1 ! index_of (low_rank_dimension example_module) idx)"
    by blast
  with pre h1 h2 show ?thesis by simp
qed

text \<open>
  C5. When the call returns on two batches in both of which example \<open>i\<close> has an index
  list of its own, and the two batches agree on the hidden state and on the index list of
  example \<open>i\<close>, then the two gated outputs, the tensors handed to the dropout layer, agree
  at position \<open>i\<close>, whatever the other examples and their index lists are, whatever the
  sizes of the two batches, the mode and the states of the generator; and the two outputs
  of the call agree at position \<open>i\<close> whenever the dropout layer returns its input, which
  it does in evaluation mode and, in every mode, when its rate is 0.0.
\<close>

theorem example_independence:
  assumes "forward m g base (Some subs) = (Inr out, g1)"
    and "forward m g' base' (Some subs') = (Inr out', g2)"
    and "i < length subs" and "i < length subs'"
    and "base ! i = base' ! i" and "subs ! i = subs' ! i"
  shows "\<exists>pre pre'. gated_output m base (Some subs) = Inr pre
      \<and> gated_output m base' (Some subs') = Inr pre'
      \<and> apply_dropout m g pre = (out, g1) \<and> apply_dropout m g' pre' = (out', g2)
      \<and> pre ! i = pre' ! i
      \<and> (\<not> training m \<or> dropout m = no_dropout \<longrightarrow> out ! i = out' ! i)"
proof -
  from forward_Inr_gated [OF assms(1)] obtain pre where
    ga: "gated_output m base (Some subs) = Inr pre" and da: "apply_dropout m g pre = (out, g1)"
    by blast
  from forward_Inr_gated [OF assms(2)] obtain pre' where
    gb: "gated_output m base' (Some subs') = Inr pre'"
    and db: "apply_dropout m g' pre' = (out', g2)"
    by blast
  from gated_output_Inr [OF ga] assms(3) have a: "i < length base"
    and pa: "pre ! i = matrix_add (base ! i)
               (matmul (length (subs ! i)) (embed_dim m)
                  (map (\<lambda>row. map (\<lambda>j. row ! j) (map (index_of (low_rank_dimension m)) (subs ! i)))
                     (residual m base ! i))
                  (map (\<lambda>j. map (\<lambda>row. row ! j) (weight m))
                     (map (index_of (low_rank_dimension m)) (subs ! i))))"
    by auto
  from gated_output_Inr [OF gb] assms(4) have b: "i < length base'"
    and pb: "pre' ! i = matrix_add (base' ! i)
               (matmul (length (subs' ! i)) (embed_dim m)
                  (map (\<lambda>row. map (\<lambda>j. row ! j) (map (index_of (low_rank_dimension m)) (subs' ! i)))
                     (residual m base' ! i))
                  (map (\<lambda>j. map (\<lambda>row. row ! j) (weight m))
                     (map (index_of (low_rank_dimension m)) (subs' ! i))))"
    by auto
  have "residual m base ! i = residual m base' ! i"
    using a b assms(5) by (simp add: residual_nth)
  with pa pb assms(5,6) have eq: "pre ! i = pre' ! i" by simp
  have "out ! i = out' ! i" if "\<not> training m \<or> dropout m = no_dropout"
  proof -
    from that have "apply_dropout m g pre = (pre, g)" "apply_dropout m g' pre' = (pre', g')"
      by (auto simp: apply_dropout_def no_dropout_def)
    with da db eq show ?thesis by simp
  qed
  with ga gb da db eq show ?thesis by blast
qed

text \<open>
  Whether the call returns does depend on the other examples: with the same hidden state
  and the same index list for the first example, the call returns when the second example
  selects one coordinate and raises RuntimeError when it selects two. And an example
  without an index list of its own depends on another example: with one index list for a
  batch of two, the call returns and adds the correction of the first example to the
  second, so two batches with the same second example get different outputs there.
\<close>

theorem example_dependence_counterexample:
  "example_base ! 0 = example_base ! 0 \<and> [[0], [1 :: int]] ! 0 = [[0], [1, 0]] ! 0
   \<and> forward example_module 0 example_base (Some [[0], [1]])
       = (Inr [[[6, 2, 3], [1, 1, 0]], [[4, 14, 6], [1, 2, 1]]], 0)
   \<and> forward example_module 0 example_base (Some [[0], [1, 0]]) = (Inl RuntimeError, 0)
   \<and> example_base ! 1 = shifted_base ! 1
   \<and> forward example_module 0 example_base (Some [[0]])
       = (Inr [[[6, 2, 3], [1, 1, 0]], [[9, 5, 6], [2, 1, 1]]], 0)
   \<and> forward example_module 0 shifted_base (Some [[0]])
       = (Inr [[[22, 7, 7], [22, 7, 7]], [[19, 5, 6], [16, 1, 1]]], 0)"
  by code_simp

text \<open>
  A batch of two and a batch of three examples that agree on their first example, in
  training mode.
\<close>

theorem example_independence_witness:
  "example_base ! 0 = other_base ! 0
   \<and> forward training_module 0 example_base (Some [[0], [1]])
       = (Inr [[[6, 2, 3], [1, 1, 0]], [[4, 14, 6], [1, 2, 1]]], 0)
   \<and> forward training_module 0 other_base (Some [[0], [-1], [1]])
       = (Inr [[[6, 2, 3], [1, 1, 0]], [[9, 26, 9], [7, 20, 7]], [[0, - 1, 1], [2, - 1, 2]]], 0)
   \<and> dropout training_module = no_dropout
   \<and> ([[[6, 2, 3], [1, 1, 0]], [[4, 14, 6], [1, 2, 1]]] :: int tensor3) ! 0
       = [[[6, 2, 3], [1, 1, 0]], [[9, 26, 9], [7, 20, 7]], [[0, - 1, 1], [2, - 1, 2]]] ! 0"
proof -
  have a: "forward training_module 0 example_base (Some [[0], [1]])
       = (Inr [[[6, 2, 3], [1, 1, 0]], [[4, 14, 6], [1, 2, 1]]], 0)" by code_simp
  have b: "forward training_module 0 other_base (Some [[0], [-1], [1]])
       = (Inr [[[6, 2, 3], [1, 1, 0]], [[9, 26, 9], [7, 20, 7]], [[0, - 1, 1], [2, - 1, 2]]], 0)"
    by code_simp
  have i1: "0 < length [[0], [1 :: int]]" by simp
  have i2: "0 < length [[0], [-1], [1 :: int]]" by simp
  have eb: "example_base ! 0 = other_base ! 0" by code_simp
  have es: "[[0], [1 :: int]] ! 0 = [[0], [-1], [1]] ! 0" by simp
  have d: "dropout training_module = no_dropout"
    by (simp add: training_module_def example_module_def)
  from example_independence [OF a b i1 i2 eb es] d
  have "([[[6, 2, 3], [1, 1, 0]], [[4, 14, 6], [1, 2, 1]]] :: int tensor3) ! 0
       = [[[6, 2, 3], [1, 1, 0]], [[9, 26, 9], [7, 20, 7]], [[0, - 1, 1], [2, - 1, 2]]] ! 0"
    by blast
  with a b eb d show ?thesis by blast
qed

text \<open>The shape of a tensor: for every example, the number of features of every position.\<close>

lemma shape_eqI:
  assumes "length x = length y"
    and "\<And>i. i < length y \<Longrightarrow> length (x ! i) = length (y ! i)"
    and "\<And>i p. i < length y \<Longrightarrow> p < length (y ! i) \<Longrightarrow> length (x ! i ! p) = length (y ! i ! p)"
  shows "map (map length) x = map (map length) y"
proof (rule nth_equalityI)
  show "length (map (map length) x) = length (map (map length) y)" using assms(1) by simp
next
  fix i assume "i < length (map (map length) x)"
  then have i: "i < length y" using assms(1) by simp
  have "map length (x ! i) = map length (y ! i)"
  proof (rule nth_equalityI)
    show "length (map length (x ! i)) = length (map length (y ! i))" using assms(2) [OF i] by simp
  next
    fix p assume "p < length (map length (x ! i))"
    then have p: "p < length (y ! i)" using assms(2) [OF i] by simp
    then show "map length (x ! i) ! p = map length (y ! i) ! p"
      using assms(2) [OF i] assms(3) [OF i p] by simp
  qed
  then show "map (map length) x ! i = map (map length) y ! i" using i assms(1) by simp
qed

lemma gated_output_succeeds:
  assumes "features_match m base" and "length subs = length base" and "stackable subs"
    and "list_all (list_all (valid_index (low_rank_dimension m))) subs"
  shows "\<exists>pre. gated_output m base (Some subs) = Inr pre"
proof -
  from assms obtain bs bw where ga: "gather m (residual m base) 0 subs = Inr (bs, bw)"
    using gather_succeeds [of 0 subs "residual m base" m] by (auto simp: length_residual)
  from gather_Inr [OF ga] assms(2) have "length (bmm (embed_dim m) bs bw) = length base"
    by (simp add: bmm_def)
  then obtain pre where "broadcast_add base (bmm (embed_dim m) bs bw) = Inr pre"
    by (simp add: broadcast_add_def)
  with ga assms have "gated_output m base (Some subs) = Inr pre"
    by (simp add: gated_output_def Let_def)
  then show ?thesis ..
qed

text \<open>The gated output of a batch at an example is the gated output of that example alone.\<close>

lemma gated_output_single:
  assumes pre: "gated_output m base (Some subs) = Inr pre"
    and len: "length subs = length base" and i: "i < length base"
  shows "gated_output m [base ! i] (Some [subs ! i]) = Inr [pre ! i]"
proof -
  note G = gated_output_Inr [OF pre]
  from i len have isub: "i < length subs" by simp
  from G i have fm1: "features_match m [base ! i]"
    by (simp add: features_match_def list_all_length)
  have st1: "stackable [subs ! i]" by (simp add: stackable_def)
  from G isub have va1: "list_all (list_all (valid_index (low_rank_dimension m))) [subs ! i]"
    by simp
  have l1: "length [subs ! i] = length [base ! i]" by simp
  from gated_output_succeeds [OF fm1 l1 st1 va1] obtain p1 where
    p1: "gated_output m [base ! i] (Some [subs ! i]) = Inr p1" by blast
  note H = gated_output_Inr [OF p1]
  have r: "residual m [base ! i] ! 0 = residual m base ! i"
    using i by (simp add: residual_nth)
  from H have "length p1 = 1" by simp
  moreover from H r have "p1 ! 0 = matrix_add (base ! i)
               (matmul (length (subs ! i)) (embed_dim m)
                  (map (\<lambda>row. map (\<lambda>j. row ! j) (map (index_of (low_rank_dimension m)) (subs ! i)))
                     (residual m base ! i))
                  (map (\<lambda>j. map (\<lambda>row. row ! j) (weight m))
                     (map (index_of (low_rank_dimension m)) (subs ! i))))"
    by simp
  moreover from G isub have "pre ! i = matrix_add (base ! i)
               (matmul (length (subs ! i)) (embed_dim m)
                  (map (\<lambda>row. map (\<lambda>j. row ! j) (map (index_of (low_rank_dimension m)) (subs ! i)))
                     (residual m base ! i))
                  (map (\<lambda>j. map (\<lambda>row. row ! j) (weight m))
                     (map (index_of (low_rank_dimension m)) (subs ! i))))"
    by simp
  ultimately have "p1 = [pre ! i]" by (cases p1) auto
  with p1 show ?thesis by simp
qed

lemma returns_with_shape:
  assumes fm: "features_match m base" and len: "length subs = length base"
    and st: "stackable subs"
    and va: "list_all (list_all (valid_index (low_rank_dimension m))) subs"
    and dk: "\<forall>g x. map (map length) (fst (dropout m g x)) = map (map length) x"
  shows "\<exists>out g' pre. forward m g base (Some subs) = (Inr out, g')
              \<and> map (map length) out = map (map length) base
              \<and> gated_output m base (Some subs) = Inr pre
              \<and> apply_dropout m g pre = (out, g')
              \<and> (\<forall>i<length base. gated_output m [base ! i] (Some [subs ! i]) = Inr [pre ! i])"
proof -
  from forward_succeeds [OF fm len st va, of g] obtain out g' where
    f: "forward m g base (Some subs) = (Inr out, g')" by blast
  from forward_Inr_gated [OF f] obtain pre where
    go: "gated_output m base (Some subs) = Inr pre"
    and dr: "apply_dropout m g pre = (out, g')" by blast
  from gated_output_Inr [OF go] have lp: "length pre = length base"
    and nth: "\<And>i. i < length subs \<Longrightarrow> pre ! i = matrix_add (base ! i)
               (matmul (length (subs ! i)) (embed_dim m)
                  (map (\<lambda>row. map (\<lambda>j. row ! j) (map (index_of (low_rank_dimension m)) (subs ! i)))
                     (residual m base ! i))
                  (map (\<lambda>j. map (\<lambda>row. row ! j) (weight m))
                     (map (index_of (low_rank_dimension m)) (subs ! i))))"
    by blast+
  have sp: "map (map length) pre = map (map length) base"
  proof (rule shape_eqI)
    show "length pre = length base" by (rule lp)
  next
    fix i assume i: "i < length base"
    then have "i < length subs" using len by simp
    from pre_shape(1) [OF fm i nth [OF this]] show "length (pre ! i) = length (base ! i)" .
  next
    fix i p assume i: "i < length base" and p: "p < length (base ! i)"
    then have "i < length subs" using len by simp
    from pre_shape(2) [OF fm i nth [OF this] p] features_match_nth [OF fm i p]
    show "length (pre ! i ! p) = length (base ! i ! p)" by simp
  qed
  have "map (map length) out = map (map length) pre"
  proof (cases "training m")
    case True
    with dr have "out = fst (dropout m g pre)" by (simp add: apply_dropout_def)
    then show ?thesis using dk by simp
  next
    case False
    with dr show ?thesis by (simp add: apply_dropout_def)
  qed
  with sp have so: "map (map length) out = map (map length) base" by simp
  have "\<forall>i<length base. gated_output m [base ! i] (Some [subs ! i]) = Inr [pre ! i]"
    using gated_output_single [OF go len] by blast
  with f so go dr show ?thesis by blast
qed

lemma unstackable_raises:
  assumes fm: "features_match m base" and len: "length subs \<le> length base"
    and st: "\<not> stackable subs"
    and va: "list_all (list_all (valid_index (low_rank_dimension m))) subs"
  shows "forward m g base (Some subs) = (Inl RuntimeError, g)"
proof -
  have "0 + length subs \<le> length (residual m base)" using len by (simp add: length_residual)
  from gather_succeeds [OF this va] obtain bs bw where
    "gather m (residual m base) 0 subs = Inr (bs, bw)" by blast
  with fm st show ?thesis by (simp add: forward_def Let_def)
qed

lemma stackable_iff:
  "stackable subs \<longleftrightarrow> subs \<noteq> [] \<and> (\<forall>s\<in>set subs. length s = length (hd subs))"
  unfolding stackable_def list_all_iff by (rule refl)

text \<open>
  C6. On a non-empty batch whose feature dimension is that of the module, with one
  non-empty list of valid indices per example and a dropout layer that keeps the shape of
  its input: when all examples select the same number of coordinates, whichever they are,
  the call returns, in every mode; its output has the shape of the input, as many examples,
  for each example as many positions, for each position as many features; and the gated
  output it hands to the dropout layer is, at every example, the gated output of that
  example alone with its own index list. When some example selects another number of
  coordinates than the first, the call raises RuntimeError.
\<close>

theorem batch_shape:
  assumes "length subs = length base" and "base \<noteq> []"
    and "\<forall>s\<in>set subs. s \<noteq> [] \<and> (\<forall>idx\<in>set s. valid_index (low_rank_dimension m) idx)"
    and "\<forall>x\<in>set base. \<forall>h\<in>set x. length h = embed_dim m"
    and "\<forall>g x. map (map length) (fst (dropout m g x)) = map (map length) x"
  shows "((\<forall>s\<in>set subs. length s = length (hd subs)) \<longrightarrow>
           (\<exists>out g' pre. forward m g base (Some subs) = (Inr out, g')
              \<and> map (map length) out = map (map length) base
              \<and> gated_output m base (Some subs) = Inr pre
              \<and> apply_dropout m g pre = (out, g')
              \<and> (\<forall>i<length base.
                    gated_output m [base ! i] (Some [subs ! i]) = Inr [pre ! i])))
      \<and> ((\<exists>s\<in>set subs. length s \<noteq> length (hd subs)) \<longrightarrow>
           forward m g base (Some subs) = (Inl RuntimeError, g))"
proof -
  have fm: "features_match m base"
    using assms(4) by (auto simp: features_match_def list_all_iff)
  have va: "list_all (list_all (valid_index (low_rank_dimension m))) subs"
    using assms(3) by (auto simp: list_all_iff)
  have ne: "subs \<noteq> []" using assms(1,2) by auto
  have le: "length subs \<le> length base" using assms(1) by simp
  show ?thesis
  proof (intro conjI impI)
    assume "\<forall>s\<in>set subs. length s = length (hd subs)"
    with ne have "stackable subs" unfolding stackable_iff by (rule conjI)
    from returns_with_shape [OF fm assms(1) this va assms(5)]
    show "\<exists>out g' pre. forward m g base (Some subs) = (Inr out, g')
              \<and> map (map length) out = map (map length) base
              \<and> gated_output m base (Some subs) = Inr pre
              \<and> apply_dropout m g pre = (out, g')
              \<and> (\<forall>i<length base.
                    gated_output m [base ! i] (Some [subs ! i]) = Inr [pre ! i])" .
  next
    assume "\<exists>s\<in>set subs. length s \<noteq> length (hd subs)"
    then have "\<not> stackable subs" unfolding stackable_iff by blast
    from unstackable_raises [OF fm le this va]
    show "forward m g base (Some subs) = (Inl RuntimeError, g)" .
  qed
qed

text \<open>
  Two valid indices for the first example and one for the second: the gathered matrices
  cannot be stacked, in evaluation mode as in training mode. And the empty batch, in which
  every example has its list, raises too.
\<close>

theorem unequal_lengths_counterexample:
  "length [[0, 1], [1 :: int]] = length example_base
   \<and> list_all (\<lambda>s. s \<noteq> [] \<and> list_all (valid_index (low_rank_dimension example_module)) s)
        [[0, 1], [1]]
   \<and> forward example_module 0 example_base (Some [[0, 1], [1]]) = (Inl RuntimeError, 0)
   \<and> forward training_module 0 example_base (Some [[0, 1], [1]]) = (Inl RuntimeError, 0)
   \<and> forward example_module 0 [] (Some []) = (Inl RuntimeError, 0)"
  by code_simp

text \<open>
  The two examples of the small batch select different coordinates, in training mode; then
  the first selects both.
\<close>

theorem batch_shape_witness:
  "training training_module
   \<and> (\<exists>out g' pre. forward training_module 0 example_base (Some [[0], [1]]) = (Inr out, g')
        \<and> map (map length) out = [[3, 3], [3, 3]]
        \<and> gated_output training_module example_base (Some [[0], [1]]) = Inr pre
        \<and> gated_output training_module [example_base ! 1] (Some [[[0], [1]] ! 1])
            = Inr [pre ! 1])
   \<and> forward training_module 0 example_base (Some [[0, 1], [1]]) = (Inl RuntimeError, 0)"
proof -
  have t: "training training_module" by code_simp
  have h2: "example_base \<noteq> []" by code_simp
  have h4: "\<forall>x\<in>set example_base. \<forall>h\<in>set x. length h = embed_dim training_module"
    by (simp add: example_base_def training_module_def example_module_def)
  have h5: "\<forall>g x. map (map length) (fst (dropout training_module g x)) = map (map length) x"
    by (simp add: training_module_def example_module_def no_dropout_def)
  have sh: "map (map length) example_base = [[3, 3], [3, 3]]" by code_simp
  have i: "1 < length example_base" by code_simp
  have a1: "length [[0], [1 :: int]] = length example_base" by code_simp
  have a3: "\<forall>s\<in>set [[0], [1 :: int]].
      s \<noteq> [] \<and> (\<forall>idx\<in>set s. valid_index (low_rank_dimension training_module) idx)"
    by (simp add: valid_index_def training_module_def example_module_def)
  have a6: "\<forall>s\<in>set [[0], [1 :: int]]. length s = length (hd [[0], [1 :: int]])" by simp
  have b1: "length [[0, 1], [1 :: int]] = length example_base" by code_simp
  have b3: "\<forall>s\<in>set [[0, 1], [1 :: int]].
      s \<noteq> [] \<and> (\<forall>idx\<in>set s. valid_index (low_rank_dimension training_module) idx)"
    by (simp add: valid_index_def training_module_def example_module_def)
  have b6: "\<exists>s\<in>set [[0, 1], [1 :: int]]. length s \<noteq> length (hd [[0, 1], [1 :: int]])" by simp
  from batch_shape [OF a1 h2 a3 h4 h5, of 0] a6 obtain out g' pre where
    f: "forward training_module 0 example_base (Some [[0], [1]]) = (Inr out, g')"
    and s: "map (map length) out = map (map length) example_base"
    and p: "gated_output training_module example_base (Some [[0], [1]]) = Inr pre"
    and e: "\<forall>i<length example_base.
              gated_output training_module [example_base ! i] (Some [[[0], [1]] ! i])
                = Inr [pre ! i]"
    by blast
  from e i have "gated_output training_module [example_base ! 1] (Some [[[0], [1]] ! 1])
      = Inr [pre ! 1]" by blast
  with f s sh p
  have A: "\<exists>out g' pre. forward training_module 0 example_base (Some [[0], [1]]) = (Inr out, g')
        \<and> map (map length) out = [[3, 3], [3, 3]]
        \<and> gated_output training_module example_base (Some [[0], [1]]) = Inr pre
        \<and> gated_output training_module [example_base ! 1] (Some [[[0], [1]] ! 1])
            = Inr [pre ! 1]" by auto
  from batch_shape [OF b1 h2 b3 h4 h5, of 0] b6
  have B: "forward training_module 0 example_base (Some [[0, 1], [1]]) = (Inl RuntimeError, 0)"
    by blast
  from t A B show ?thesis by blast
qed

text \<open>
  C1. In evaluation mode, on a non-empty batch whose feature dimension is that of the
  module, with one list of valid indices per example and all lists of the same length: when
  the activation of the learned source of the base equals the rotated base, the call
  returns the base itself, and leaves the generator as it was.
\<close>

theorem zero_residual_identity:
  assumes "\<not> training m" and "length subs = length base" and "base \<noteq> []"
    and "\<forall>s\<in>set subs. length s = length (hd subs)
               \<and> (\<forall>idx\<in>set s. valid_index (low_rank_dimension m) idx)"
    and "\<forall>x\<in>set base. \<forall>h\<in>set x. length h = embed_dim m"
    and "apply_act_fn m (learned_source m base) = rotate_layer m base"
  shows "forward m g base (Some subs) = (Inr base, g)"
proof -
  from forward_eval [OF assms(1-5), of g] obtain out where
    f: "forward m g base (Some subs) = (Inr out, g)" and l: "length out = length base"
    and nth: "\<And>i. i < length base \<Longrightarrow> out ! i = matrix_add (base ! i)
               (matmul (length (subs ! i)) (embed_dim m)
                  (map (\<lambda>row. map (\<lambda>j. row ! j) (map (index_of (low_rank_dimension m)) (subs ! i)))
                     (residual m base ! i))
                  (map (\<lambda>j. map (\<lambda>row. row ! j) (weight m))
                     (map (index_of (low_rank_dimension m)) (subs ! i))))"
    by blast
  have fm: "features_match m base"
    using valid_inputs(3) [OF assms(2-5)] .
  have "out ! i = base ! i" if i: "i < length base" for i
  proof (rule nth_equalityI)
    show "length (out ! i) = length (base ! i)" using pre_shape(1) [OF fm i nth [OF i]] .
  next
    fix p assume "p < length (out ! i)"
    then have p: "p < length (base ! i)" using pre_shape(1) [OF fm i nth [OF i]] by simp
    have hl: "length (base ! i ! p) = embed_dim m" using fm i p by (rule features_match_nth)
    have lr: "length (residual m base ! i) = length (base ! i)" using i by (rule length_residual_nth)
    let ?js = "map (index_of (low_rank_dimension m)) (subs ! i)"
    let ?L = "map (\<lambda>row. map (\<lambda>j. row ! j) ?js) (residual m base ! i)"
    let ?R = "map (\<lambda>j. map (\<lambda>row. row ! j) (weight m)) ?js"
    have si: "subs ! i \<in> set subs" using i assms(2) by simp
    have z: "\<forall>t<length (subs ! i). ?L ! p ! t = 0"
    proof (intro allI impI)
      fix t assume t: "t < length (subs ! i)"
      then have "valid_index (low_rank_dimension m) (subs ! i ! t)"
        using si assms(4) by auto
      then have "?js ! t < low_rank_dimension m" using t by (simp add: index_of_less)
      then have "residual m base ! i ! p ! (?js ! t) = 0"
        using residual_zero [OF assms(6) i p] by blast
      then show "?L ! p ! t = 0" using t p lr by simp
    qed
    show "out ! i ! p = base ! i ! p"
    proof (rule nth_equalityI)
      show "length (out ! i ! p) = length (base ! i ! p)"
        using pre_shape(2) [OF fm i nth [OF i] p] hl by simp
    next
      fix d assume "d < length (out ! i ! p)"
      then have d: "d < embed_dim m" using pre_shape(2) [OF fm i nth [OF i] p] by simp
      have pl: "p < length ?L" using p lr by simp
      have "matmul (length (subs ! i)) (embed_dim m) ?L ?R ! p ! d = 0"
        using pl d z by (rule matmul_zero_rows)
      moreover have "out ! i ! p ! d
          = base ! i ! p ! d + matmul (length (subs ! i)) (embed_dim m) ?L ?R ! p ! d"
        unfolding nth [OF i] using p pl d hl
        by (intro matrix_add_nth) (simp_all add: length_matmul length_matmul_nth)
      ultimately show "out ! i ! p ! d = base ! i ! p ! d" by simp
    qed
  qed
  with l have "out = base" by (simp add: nth_equalityI)
  with f show ?thesis by simp
qed

text \<open>
  With a zero residual and valid indices, but one index for the first example and two for
  the second, the call raises RuntimeError instead of returning the base.
\<close>

theorem zero_residual_unequal_lists_counterexample:
  "\<not> training identity_module
   \<and> apply_act_fn identity_module (learned_source identity_module example_base)
       = rotate_layer identity_module example_base
   \<and> list_all (list_all (valid_index (low_rank_dimension identity_module))) [[0], [0, 1]]
   \<and> forward identity_module 0 example_base (Some [[0], [0, 1]]) = (Inl RuntimeError, 0)"
  by code_simp

text \<open>The module whose learned source is its rotation, on the small batch.\<close>

theorem zero_residual_identity_witness:
  "\<not> training identity_module
   \<and> apply_act_fn identity_module (learned_source identity_module example_base)
       = rotate_layer identity_module example_base
   \<and> forward identity_module 0 example_base (Some [[0], [-1]]) = (Inr example_base, 0)"
proof -
  have h1: "\<not> training identity_module" by code_simp
  have h2: "length [[0], [-1 :: int]] = length example_base" by code_simp
  have h3: "example_base \<noteq> []" by code_simp
  have h4: "\<forall>s\<in>set [[0], [-1 :: int]]. length s = length (hd [[0], [-1 :: int]])
      \<and> (\<forall>idx\<in>set s. valid_index (low_rank_dimension identity_module) idx)"
    by (simp add: valid_index_def identity_module_def example_module_def)
  have h5: "\<forall>x\<in>set example_base. \<forall>h\<in>set x. length h = embed_dim identity_module"
    by (simp add: example_base_def identity_module_def example_module_def)
  have h6: "apply_act_fn identity_module (learned_source identity_module example_base)
       = rotate_layer identity_module example_base" by code_simp
  from zero_residual_identity [OF h1 h2 h3 h4 h5 h6, of 0] h1 h6 show ?thesis by simp
qed

text \<open>The full range in any order.\<close>

lemma full_range_any_order:
  assumes "base \<noteq> []" and "length subs = length base"
    and "\<forall>s\<in>set subs. distinct s \<and> set s = {0..<int (low_rank_dimension m)}"
  shows "forward m g base (Some subs) = loreft_forward m g base"
proof (cases "features_match m base")
  case False
  then show ?thesis by (simp add: forward_def loreft_forward_def)
next
  case fm: True
  let ?r = "low_rank_dimension m"
  let ?WT = "map (\<lambda>j. map (\<lambda>row. row ! j) (weight m)) [0..<?r]"
  let ?pre = "map2 matrix_add base (map (\<lambda>d. matmul ?r (embed_dim m) d ?WT) (residual m base))"
  have ne: "subs \<noteq> []" using assms(1,2) by auto
  have lens: "\<forall>s\<in>set subs. length s = ?r"
    using assms(3) full_range_indices(2) by blast
  have hd: "hd subs \<in> set subs" using ne by simp
  have st: "stackable subs" using ne lens hd by (simp add: stackable_def list_all_iff)
  have va: "list_all (list_all (valid_index ?r)) subs"
    using assms(3) full_range_indices(1) by (auto simp: list_all_iff)
  from forward_succeeds [OF fm assms(2) st va, of g] obtain pre where
    f: "forward m g base (Some subs)
          = (Inr (fst (apply_dropout m g pre)), snd (apply_dropout m g pre))" by blast
  from forward_Inr [OF f] obtain pre' where
    dr: "apply_dropout m g pre' = apply_dropout m g pre"
    and lp: "length pre' = length base"
    and nth: "\<And>i. i < length subs \<Longrightarrow> pre' ! i = matrix_add (base ! i)
               (matmul (length (subs ! i)) (embed_dim m)
                  (map (\<lambda>row. map (\<lambda>j. row ! j) (map (index_of ?r) (subs ! i)))
                     (residual m base ! i))
                  (map (\<lambda>j. map (\<lambda>row. row ! j) (weight m))
                     (map (index_of ?r) (subs ! i))))"
    by auto
  have "pre' = ?pre"
  proof (rule nth_equalityI)
    show "length pre' = length ?pre" using lp by (simp add: length_residual)
  next
    fix i assume "i < length pre'"
    then have i: "i < length base" using lp by simp
    then have si: "subs ! i \<in> set subs" "i < length subs" using assms(2) by simp_all
    then have d: "distinct (subs ! i)" and s: "set (subs ! i) = {0..<int ?r}"
      using assms(3) by blast+
    have "pre' ! i = matrix_add (base ! i) (matmul ?r (embed_dim m) (residual m base ! i) ?WT)"
      using nth [OF si(2)] unfolding full_range_matmul [OF d s] .
    moreover have "?pre ! i
        = matrix_add (base ! i) (matmul ?r (embed_dim m) (residual m base ! i) ?WT)"
      using i by (simp add: length_residual)
    ultimately show "pre' ! i = ?pre ! i" by simp
  qed
  then have "forward m g base (Some subs)
      = (Inr (fst (apply_dropout m g ?pre)), snd (apply_dropout m g ?pre))"
    using f dr by simp
  moreover have "loreft_forward m g base
      = (Inr (fst (apply_dropout m g ?pre)), snd (apply_dropout m g ?pre))"
    using fm by (simp add: loreft_forward_def Let_def split: prod.splits)
  ultimately show ?thesis by simp
qed

text \<open>
  C2. On a non-empty batch, when every example selects the full index range
  \<open>0, \<dots>, low_rank_dimension - 1\<close>, the call returns what the un-gated forward pass of the
  parent class returns: the same output, or the same error when the feature dimension of
  the input is not that of the module, and the same generator state.
\<close>

theorem full_range_is_ungated:
  assumes "base \<noteq> []" and "length subs = length base"
    and "\<forall>s\<in>set subs. s = map int [0..<low_rank_dimension m]"
  shows "forward m g base (Some subs) = loreft_forward m g base"
proof -
  have d: "distinct (map int [0..<low_rank_dimension m])"
    by (simp add: distinct_map inj_on_def)
  have e: "set (map int [0..<low_rank_dimension m]) = {0..<int (low_rank_dimension m)}"
    by (simp add: image_int_atLeastLessThan)
  have "\<forall>s\<in>set subs. distinct s \<and> set s = {0..<int (low_rank_dimension m)}"
  proof
    fix s assume "s \<in> set subs"
    with assms(3) have "s = map int [0..<low_rank_dimension m]" by blast
    with d e show "distinct s \<and> set s = {0..<int (low_rank_dimension m)}" by blast
  qed
  from full_range_any_order [OF assms(1,2) this] show ?thesis .
qed

text \<open>
  On the empty batch, where no example is left without the full range, the call raises
  RuntimeError, since there is nothing to stack, while the un-gated forward pass returns the
  empty batch.
\<close>

theorem empty_batch_counterexample:
  "forward example_module 0 [] (Some []) = (Inl RuntimeError, 0)
   \<and> loreft_forward example_module 0 [] = (Inr [], 0)"
  by code_simp

text \<open>Both examples of the small batch select both coordinates.\<close>

theorem full_range_is_ungated_witness:
  "forward example_module 0 example_base (Some [[0, 1], [0, 1]])
     = loreft_forward example_module 0 example_base
   \<and> loreft_forward example_module 0 example_base
     = (Inr [[[6, 5, 3], [1, 2, 0]], [[15, 14, 6], [4, 2, 1]]], 0)"
proof -
  have h1: "example_base \<noteq> []" by code_simp
  have h2: "length [[0, 1], [0, 1 :: int]] = length example_base" by code_simp
  have r: "map int [0..<low_rank_dimension example_module] = [0, 1]" by code_simp
  have h3: "\<forall>s\<in>set [[0, 1], [0, 1 :: int]]. s = map int [0..<low_rank_dimension example_module]"
    unfolding r by simp
  have v: "loreft_forward example_module 0 example_base
     = (Inr [[[6, 5, 3], [1, 2, 0]], [[15, 14, 6], [4, 2, 1]]], 0)" by code_simp
  from full_range_is_ungated [OF h1 h2 h3, of 0] v show ?thesis by simp
qed

end
